theory Spec2Isabelle
  imports Complex_Main "HOL-Library.Sublist"
begin

section \<open>The report generator \<^verbatim>\<open>docs/generate_report_pdf.py\<close>\<close>

text \<open>
  The script subclasses the PDF library's document class (\<^verbatim>\<open>PentestReport(FPDF)\<close>) and
  then runs a fixed sequence of drawing calls on one instance. The model is a shallow
  embedding: the document object is a record, every method is a function from record to
  record, and everything that reaches the page is appended to a log of painted
  primitives, each stamped with the page it was painted on.

  Lengths are millimetres. Python computes them in binary floating point; the model
  computes with exact rationals.
\<close>

subsection \<open>Colour palette and lookup tables (lines 36--66)\<close>

type_synonym color = "nat \<times> nat \<times> nat"

definition C_DARK :: color where "C_DARK = (15, 23, 42)"
definition C_MID :: color where "C_MID = (51, 65, 85)"
definition C_LIGHT :: color where "C_LIGHT = (226, 232, 240)"
definition C_WHITE :: color where "C_WHITE = (255, 255, 255)"
definition C_RED :: color where "C_RED = (220, 38, 38)"
definition C_ORANGE :: color where "C_ORANGE = (234, 88, 12)"
definition C_YELLOW :: color where "C_YELLOW = (202, 138, 4)"
definition C_GREEN :: color where "C_GREEN = (22, 163, 74)"
definition C_BLUE :: color where "C_BLUE = (37, 99, 235)"
definition C_BLUE_DARK :: color where "C_BLUE_DARK = (30, 64, 175)"
definition C_BLUE_LITE :: color where "C_BLUE_LITE = (219, 234, 254)"
definition C_BADGE_RED :: color where "C_BADGE_RED = (254, 226, 226)"
definition C_BADGE_YEL :: color where "C_BADGE_YEL = (254, 243, 199)"
definition C_BADGE_GRN :: color where "C_BADGE_GRN = (220, 252, 231)"
definition C_CODE_BG :: color where "C_CODE_BG = (30, 30, 30)"
definition C_CODE_FG :: color where "C_CODE_FG = (212, 212, 212)"
definition C_POS_BG :: color where "C_POS_BG = (220, 252, 231)"
definition C_NEG_BG :: color where "C_NEG_BG = (254, 226, 226)"

text \<open>The two dictionaries, as association lists in the source's key order.\<close>

definition SEVERITY_COLOR :: "(string \<times> color) list" where
  "SEVERITY_COLOR =
     [(''Critical'', C_RED), (''High'', C_ORANGE), (''Medium'', C_YELLOW), (''Low'', C_GREEN)]"

definition STATUS_COLOR :: "(string \<times> color \<times> color \<times> string) list" where
  "STATUS_COLOR =
     [(''non_compliant'', (C_RED, C_BADGE_RED, ''Non-Compliant'')),
      (''at_risk'', (C_ORANGE, C_BADGE_YEL, ''At Risk'')),
      (''compliant'', (C_GREEN, C_BADGE_GRN, ''Compliant''))]"

text \<open>\<^verbatim>\<open>d.get(k, default)\<close>.\<close>

definition dict_get :: "('k \<times> 'v) list \<Rightarrow> 'k \<Rightarrow> 'v \<Rightarrow> 'v" where
  "dict_get d k dflt = (case map_of d k of Some v \<Rightarrow> v | None \<Rightarrow> dflt)"

text \<open>
  The background chain written out three times in the source (lines 162--165, 306--309,
  450--453): three equality tests and a final \<^verbatim>\<open>else\<close>.
\<close>

definition severity_bg :: "string \<Rightarrow> color" where
  "severity_bg sev =
     (if sev = ''Critical'' then (254, 226, 226)
      else if sev = ''High'' then (255, 237, 213)
      else if sev = ''Medium'' then (254, 249, 195)
      else (220, 252, 231))"

subsection \<open>The document object\<close>

text \<open>
  A font is family, style and size in points. What is painted is a rectangle, a line or
  a text cell; a painted record keeps the page, who painted it (page body, running
  header or footer) and the graphics state it was painted with.
\<close>

type_synonym font = "string \<times> string \<times> rat"

datatype origin = Body | Header | Footer

datatype xpos = XLEFT | XRIGHT | XLMARGIN
datatype ypos = YTOP | YNEXT

datatype prim =
    Rect rat rat rat rat string
  | Line rat rat rat rat
  | Cell rat rat rat rat string string bool

record painted =
  pg :: nat
  painter :: origin
  fill_c :: color
  text_c :: color
  draw_c :: color
  fnt :: font
  prim :: prim

record pdf =
  page_no :: nat
  cur_x :: rat
  cur_y :: rat
  lasth :: rat
  drawing :: origin
  fill_color :: color
  text_color :: color
  draw_color :: color
  line_width :: rat
  font :: font
  ops :: "painted list"

text \<open>
  What the script reads from outside itself: the two metadata strings, the clock (already
  formatted, as the footer prints it), Python's \<^verbatim>\<open>str\<close> on a score, and the font engine
  (the width of a string in a font, and the library's line breaking of a text at a
  maximum line width in a font). The font engine is the library's and the font files';
  the model takes it as a parameter and every general theorem holds for any such engine.
\<close>

record env =
  TARGET :: string
  SESSION_ID :: string
  COMPLETED :: string
  now_utc :: string
  str_num :: "rat \<Rightarrow> string"
  string_width :: "font \<Rightarrow> string \<Rightarrow> rat"
  wrap :: "font \<Rightarrow> rat \<Rightarrow> string \<Rightarrow> string list"

definition SHORT_SID :: "env \<Rightarrow> string" where
  "SHORT_SID e = take 8 (SESSION_ID e)"

subsection \<open>Page geometry set by the constructor (lines 73--76)\<close>

text \<open>
  A4 portrait in millimetres: the library holds the format in points, 595.28 by 841.89,
  and divides by 72/25.4. \<^verbatim>\<open>set_margins(18, 18, 18)\<close> gives left, top and right;
  \<^verbatim>\<open>set_auto_page_break(auto=True, margin=20)\<close> gives the bottom margin and the
  page-break trigger. The cell margin is the library's default, a tenth of a centimetre.
\<close>

definition page_w :: rat where "page_w = 59528 * 254 / 72000"
definition page_h :: rat where "page_h = 84189 * 254 / 72000"
definition l_margin :: rat where "l_margin = 18"
definition t_margin :: rat where "t_margin = 18"
definition r_margin :: rat where "r_margin = 18"
definition b_margin :: rat where "b_margin = 20"
definition c_margin :: rat where "c_margin = 1"
definition epw :: rat where "epw = page_w - l_margin - r_margin"
definition page_break_trigger :: rat where "page_break_trigger = page_h - b_margin"

text \<open>The document after the constructor: no page yet, the cursor at the left and top
  margins, black colours, the library's default line width (0.567 points) and no font.\<close>

definition init_pdf :: pdf where
  "init_pdf = \<lparr>page_no = 0, cur_x = l_margin, cur_y = t_margin, lasth = 0, drawing = Body,
     fill_color = (0, 0, 0), text_color = (0, 0, 0), draw_color = (0, 0, 0),
     line_width = 567 * 254 / 720000, font = ('''', '''', 12), ops = []\<rparr>"

subsection \<open>The library's drawing methods the script calls\<close>

definition set_fill_color :: "color \<Rightarrow> pdf \<Rightarrow> pdf" where
  "set_fill_color c s = s\<lparr>fill_color := c\<rparr>"

definition set_text_color :: "color \<Rightarrow> pdf \<Rightarrow> pdf" where
  "set_text_color c s = s\<lparr>text_color := c\<rparr>"

definition set_draw_color :: "color \<Rightarrow> pdf \<Rightarrow> pdf" where
  "set_draw_color c s = s\<lparr>draw_color := c\<rparr>"

definition set_line_width :: "rat \<Rightarrow> pdf \<Rightarrow> pdf" where
  "set_line_width v s = s\<lparr>line_width := v\<rparr>"

definition set_font :: "string \<Rightarrow> string \<Rightarrow> rat \<Rightarrow> pdf \<Rightarrow> pdf" where
  "set_font family style sz s = s\<lparr>font := (family, style, sz)\<rparr>"

text \<open>A negative abscissa or ordinate counts from the right or bottom edge of the page;
  \<^verbatim>\<open>set_y\<close> also moves x to the left margin.\<close>

definition set_x :: "rat \<Rightarrow> pdf \<Rightarrow> pdf" where
  "set_x v s = s\<lparr>cur_x := (if 0 \<le> v then v else page_w + v)\<rparr>"

definition set_y :: "rat \<Rightarrow> pdf \<Rightarrow> pdf" where
  "set_y v s = s\<lparr>cur_x := l_margin, cur_y := (if 0 \<le> v then v else page_h + v)\<rparr>"

definition set_xy :: "rat \<Rightarrow> rat \<Rightarrow> pdf \<Rightarrow> pdf" where
  "set_xy vx vy s = set_x vx (set_y vy s)"

definition ln :: "rat \<Rightarrow> pdf \<Rightarrow> pdf" where
  "ln h s = s\<lparr>cur_x := l_margin, cur_y := cur_y s + h\<rparr>"

text \<open>\<^verbatim>\<open>ln()\<close> with no argument advances by the height of the last cell.\<close>

definition ln_last :: "pdf \<Rightarrow> pdf" where
  "ln_last s = ln (lasth s) s"

definition paint :: "prim \<Rightarrow> pdf \<Rightarrow> pdf" where
  "paint p s = s\<lparr>ops := ops s @
     [\<lparr>pg = page_no s, painter = drawing s, fill_c = fill_color s, text_c = text_color s,
       draw_c = draw_color s, fnt = font s, prim = p\<rparr>]\<rparr>"

definition rect :: "rat \<Rightarrow> rat \<Rightarrow> rat \<Rightarrow> rat \<Rightarrow> string \<Rightarrow> pdf \<Rightarrow> pdf" where
  "rect vx vy w h style s = paint (Rect vx vy w h style) s"

definition line :: "rat \<Rightarrow> rat \<Rightarrow> rat \<Rightarrow> rat \<Rightarrow> pdf \<Rightarrow> pdf" where
  "line x1 y1 x2 y2 s = paint (Line x1 y1 x2 y2) s"

text \<open>
  One text cell at the cursor, without the page-break test: width 0 means up to the
  right margin; afterwards the cursor moves as \<^verbatim>\<open>new_x\<close>, \<^verbatim>\<open>new_y\<close> say.
\<close>

definition cell_paint ::
  "rat \<Rightarrow> rat \<Rightarrow> string \<Rightarrow> string \<Rightarrow> bool \<Rightarrow> xpos \<Rightarrow> ypos \<Rightarrow> pdf \<Rightarrow> pdf" where
  "cell_paint w h txt align fill nx ny s =
     (let w' = (if w = 0 then page_w - r_margin - cur_x s else w);
          s1 = paint (Cell (cur_x s) (cur_y s) w' h txt align fill) s
      in s1\<lparr>lasth := h,
             cur_x := (case nx of XLEFT \<Rightarrow> cur_x s | XRIGHT \<Rightarrow> cur_x s + w'
                        | XLMARGIN \<Rightarrow> l_margin),
             cur_y := (case ny of YTOP \<Rightarrow> cur_y s | YNEXT \<Rightarrow> cur_y s + h)\<rparr>)"

text \<open>Statements in sequence, and a \<^verbatim>\<open>for\<close> loop over a list.\<close>

fun seq :: "('s \<Rightarrow> 's) list \<Rightarrow> 's \<Rightarrow> 's" where
  "seq [] s = s"
| "seq (a # as) s = seq as (a s)"

definition for_each :: "('a \<Rightarrow> 's \<Rightarrow> 's) \<Rightarrow> 'a list \<Rightarrow> 's \<Rightarrow> 's" where
  "for_each f xs = seq (map f xs)"

text \<open>Characters outside ASCII that the script prints, as their UTF-8 bytes.\<close>

definition em_dash :: string where "em_dash = [CHR 0xE2, CHR 0x80, CHR 0x94]"
definition en_dash :: string where "en_dash = [CHR 0xE2, CHR 0x80, CHR 0x93]"
definition middot :: string where "middot = [CHR 0xC2, CHR 0xB7]"
definition bullet_mark :: string where "bullet_mark = [CHR 0xE2, CHR 0x80, CHR 0xA2]"
definition check_mark :: string where "check_mark = [CHR 0xE2, CHR 0x9C, CHR 0x93]"
definition cross_mark :: string where "cross_mark = [CHR 0xE2, CHR 0x9C, CHR 0x97]"

subsection \<open>Running header and footer (lines 84--105)\<close>

text \<open>
  The library calls \<^verbatim>\<open>header\<close> at the top of every page it starts and \<^verbatim>\<open>footer\<close> when it
  leaves a page. Both paint their text with \<^verbatim>\<open>cell\<close>; the cell of the header stands at
  y = 1.5 and that of the footer is painted while the library's \<^verbatim>\<open>in_footer\<close> flag is
  set, so the page-break test of \<^verbatim>\<open>cell\<close> is false in both (lemmas
  \<open>header_cell_no_break\<close> and \<open>footer_cell_no_break\<close> below) and the model paints them
  with \<open>cell_paint\<close>.
\<close>

definition header_text :: "env \<Rightarrow> string" where
  "header_text e = ''  AutoRed.AI '' @ em_dash @ '' Penetration Test Report  |  '' @ TARGET e
     @ ''  |  CONFIDENTIAL''"

definition header :: "env \<Rightarrow> pdf \<Rightarrow> pdf" where
  "header e s =
     (if page_no s = 1 then s
      else seq [
        set_fill_color C_DARK,
        rect 0 0 210 10 ''F'',
        set_font ''Sans'' ''B'' 8,
        set_text_color C_WHITE,
        set_xy 0 (3 / 2),
        cell_paint 0 6 (header_text e) ''L'' False XRIGHT YTOP,
        set_text_color C_DARK,
        ln 4] s)"

definition footer_text :: "env \<Rightarrow> string" where
  "footer_text e = ''AutoRed.AI v1.0  |  Session '' @ SHORT_SID e @ ''  |  Generated ''
     @ now_utc e"

definition footer :: "env \<Rightarrow> pdf \<Rightarrow> pdf" where
  "footer e = seq [
     set_y (- 14),
     set_font ''Sans'' [] (15 / 2),
     set_text_color (148, 163, 184),
     cell_paint 0 5 (footer_text e) ''C'' False XRIGHT YTOP,
     set_text_color C_DARK]"

subsection \<open>Pages and page breaks (the library)\<close>

text \<open>
  \<^verbatim>\<open>add_page\<close>: the footer of the page being left (if there is one), the cursor to the
  top-left margin of the new page, the header; font, colours and line width are those of
  the caller before and after the header.
\<close>

definition render_footer :: "env \<Rightarrow> pdf \<Rightarrow> pdf" where
  "render_footer e s = (footer e (s\<lparr>drawing := Footer\<rparr>))\<lparr>drawing := Body\<rparr>"

definition restore_gs :: "pdf \<Rightarrow> pdf \<Rightarrow> pdf" where
  "restore_gs s0 s = s\<lparr>fill_color := fill_color s0, text_color := text_color s0,
     draw_color := draw_color s0, line_width := line_width s0, font := font s0\<rparr>"

definition add_page :: "env \<Rightarrow> pdf \<Rightarrow> pdf" where
  "add_page e s =
     (let s1 = (if 0 < page_no s then render_footer e s else s);
          s2 = (restore_gs s s1)\<lparr>page_no := page_no s + 1, cur_x := l_margin,
                  cur_y := t_margin, drawing := Header\<rparr>;
          s3 = header e s2
      in (restore_gs s s3)\<lparr>drawing := Body\<rparr>)"

text \<open>
  The automatic page break: a cell of height h breaks the page first when the cursor is
  below the top margin, the cell would pass the trigger, and the footer is not being
  painted. The break keeps x.
\<close>

definition will_page_break :: "rat \<Rightarrow> pdf \<Rightarrow> bool" where
  "will_page_break h s \<longleftrightarrow>
     t_margin < cur_y s \<and> page_break_trigger < cur_y s + h \<and> drawing s \<noteq> Footer"

definition perform_page_break :: "env \<Rightarrow> pdf \<Rightarrow> pdf" where
  "perform_page_break e s = (add_page e s)\<lparr>cur_x := cur_x s\<rparr>"

definition cell ::
  "env \<Rightarrow> rat \<Rightarrow> rat \<Rightarrow> string \<Rightarrow> string \<Rightarrow> bool \<Rightarrow> xpos \<Rightarrow> ypos \<Rightarrow> pdf \<Rightarrow> pdf" where
  "cell e w h txt align fill nx ny s =
     cell_paint w h txt align fill nx ny
       (if will_page_break h s then perform_page_break e s else s)"

text \<open>
  \<^verbatim>\<open>multi_cell\<close>: the text is broken into lines at the width of the cell less the cell
  margin on both sides; a text that gives no line is one empty line. Each line is a cell
  of its own (so each line can break the page); the cursor goes down a line after each
  and, after the last, to the right of the cell. A dry run returns the lines and leaves
  the document as it was.
\<close>

definition text_lines :: "env \<Rightarrow> font \<Rightarrow> rat \<Rightarrow> string \<Rightarrow> string list" where
  "text_lines e f w txt =
     (let ls = wrap e f (w - 2 * c_margin) txt in if ls = [] then [[]] else ls)"

fun multi_cell_lines :: "env \<Rightarrow> rat \<Rightarrow> rat \<Rightarrow> string list \<Rightarrow> pdf \<Rightarrow> pdf" where
  "multi_cell_lines e w h [] s = s"
| "multi_cell_lines e w h [l] s = cell e w h l ''J'' False XRIGHT YNEXT s"
| "multi_cell_lines e w h (l # ls) s =
     multi_cell_lines e w h ls (cell e w h l ''J'' False XLEFT YNEXT s)"

definition cell_width :: "rat \<Rightarrow> pdf \<Rightarrow> rat" where
  "cell_width w s = (if w = 0 then page_w - r_margin - cur_x s else w)"

definition multi_cell :: "env \<Rightarrow> rat \<Rightarrow> rat \<Rightarrow> string \<Rightarrow> pdf \<Rightarrow> pdf" where
  "multi_cell e w h txt s =
     multi_cell_lines e (cell_width w s) h (text_lines e (font s) (cell_width w s) txt) s"

definition multi_cell_dry_run :: "env \<Rightarrow> rat \<Rightarrow> string \<Rightarrow> pdf \<Rightarrow> string list" where
  "multi_cell_dry_run e w txt s = text_lines e (font s) (cell_width w s) txt"

definition get_string_width :: "env \<Rightarrow> string \<Rightarrow> pdf \<Rightarrow> rat" where
  "get_string_width e txt s = string_width e (font s) txt"


subsection \<open>The helper methods of \<^verbatim>\<open>PentestReport\<close> (lines 108--235)\<close>

definition h1 :: "env \<Rightarrow> string \<Rightarrow> pdf \<Rightarrow> pdf" where
  "h1 e txt = seq [
     ln 4,
     set_fill_color C_BLUE_DARK,
     set_text_color C_WHITE,
     set_font ''Sans'' ''B'' 13,
     cell e 0 9 (''  '' @ txt) ''L'' True XLMARGIN YNEXT,
     set_text_color C_DARK,
     ln 2]"

definition h2 :: "env \<Rightarrow> string \<Rightarrow> pdf \<Rightarrow> pdf" where
  "h2 e txt = seq [
     ln 3,
     set_font ''Sans'' ''B'' 11,
     set_text_color C_BLUE,
     cell e 0 7 txt ''L'' False XLMARGIN YNEXT,
     set_draw_color C_BLUE_LITE,
     set_line_width (4 / 10),
     (\<lambda>s. line (cur_x s) (cur_y s) (cur_x s + 174) (cur_y s) s),
     set_text_color C_DARK,
     ln 1]"

definition h3 :: "env \<Rightarrow> string \<Rightarrow> pdf \<Rightarrow> pdf" where
  "h3 e txt = seq [
     ln 2,
     set_font ''Sans'' ''B'' 10,
     set_text_color C_MID,
     cell e 0 6 txt ''L'' False XLMARGIN YNEXT,
     set_text_color C_DARK]"

definition body :: "env \<Rightarrow> string \<Rightarrow> rat \<Rightarrow> pdf \<Rightarrow> pdf" where
  "body e txt indent = seq [
     set_font ''Sans'' [] (19 / 2),
     set_text_color C_MID,
     set_x (l_margin + indent),
     multi_cell e 0 (11 / 2) txt,
     set_text_color C_DARK,
     ln 1]"

definition kv_row :: "env \<Rightarrow> string \<Rightarrow> string \<Rightarrow> bool \<Rightarrow> pdf \<Rightarrow> pdf" where
  "kv_row e key val fill = seq [
     set_font ''Sans'' ''B'' 9,
     set_fill_color (if fill then C_LIGHT else C_WHITE),
     set_text_color C_MID,
     cell e 48 (13 / 2) (''  '' @ key) ''L'' True XRIGHT YTOP,
     set_font ''Sans'' [] 9,
     set_text_color C_DARK,
     cell e 0 (13 / 2) (''  '' @ val) ''L'' True XLMARGIN YNEXT]"

definition badge :: "env \<Rightarrow> string \<Rightarrow> color \<Rightarrow> color \<Rightarrow> pdf \<Rightarrow> pdf" where
  "badge e txt fg bg = seq [
     set_font ''Sans'' ''B'' 8,
     set_text_color fg,
     set_fill_color bg,
     (\<lambda>s. cell e (get_string_width e txt s + 6) (11 / 2) txt ''L'' True XRIGHT YTOP s)]"

definition severity_badge :: "env \<Rightarrow> string \<Rightarrow> pdf \<Rightarrow> pdf" where
  "severity_badge e sev = badge e sev (dict_get SEVERITY_COLOR sev C_MID) (severity_bg sev)"

text \<open>\<^verbatim>\<open>score_bar\<close> (lines 168--184); the script calls it with width 100 and height 5.\<close>

definition score_bar :: "env \<Rightarrow> rat \<Rightarrow> rat \<Rightarrow> rat \<Rightarrow> pdf \<Rightarrow> pdf" where
  "score_bar e score width height s =
     (let x = cur_x s; y = cur_y s;
          fill_w = (score / 100) * width;
          color = (if score < 50 then C_RED else if score < 70 then C_YELLOW else C_GREEN)
      in seq [
        set_fill_color C_LIGHT,
        rect x y width height ''F'',
        set_fill_color color,
        rect x y fill_w height ''F'',
        set_font ''Sans'' ''B'' (15 / 2),
        set_text_color (if score < 50 then C_WHITE else C_DARK),
        set_xy (x + fill_w - 14) y,
        cell e 14 height (str_num e score @ ''/100'') ''R'' False XRIGHT YTOP,
        set_text_color C_DARK] s)"

text \<open>\<^verbatim>\<open>str.split("\n")\<close>: always at least one piece.\<close>

fun split_on :: "char \<Rightarrow> string \<Rightarrow> string list" where
  "split_on c [] = [[]]"
| "split_on c (a # as) =
     (if a = c then [] # split_on c as
      else (case split_on c as of [] \<Rightarrow> [[a]] | l # ls \<Rightarrow> (a # l) # ls))"

definition newline :: char where "newline = CHR 0x0A"

text \<open>\<^verbatim>\<open>code_block\<close> (lines 186--218), in its two steps: the height and the page-break
  decision, then the painting from the position the first step leaves.\<close>

definition code_block_height :: "string \<Rightarrow> rat" where
  "code_block_height code = of_nat (length (split_on newline code)) * (9 / 2) + 4 * 2"

definition code_block_place :: "env \<Rightarrow> string \<Rightarrow> pdf \<Rightarrow> pdf" where
  "code_block_place e code s =
     (let height = code_block_height code;
          available = page_h - b_margin - cur_y s
      in if height > available then add_page e s else s)"

definition code_block_paint :: "env \<Rightarrow> string \<Rightarrow> string \<Rightarrow> pdf \<Rightarrow> pdf" where
  "code_block_paint e code lang s =
     (let lines = split_on newline code; line_h = 9 / 2; pad = 4;
          height = code_block_height code;
          x0 = cur_x s; y0 = cur_y s; w = epw
      in seq [
        set_fill_color C_CODE_BG,
        rect x0 y0 w height ''F'',
        (if lang \<noteq> [] then seq [
           set_font ''Mono'' [] 7,
           set_text_color (100, 116, 139),
           (\<lambda>s. set_xy (x0 + w - get_string_width e lang s - 4) (y0 + 3 / 2) s),
           cell e 0 3 lang ''L'' False XRIGHT YTOP]
         else id),
        set_font ''Mono'' [] 8,
        set_text_color C_CODE_FG,
        set_xy (x0 + pad) (y0 + pad),
        for_each (\<lambda>l. seq [
           set_x (x0 + pad),
           cell e (w - pad * 2) line_h l ''L'' False XLMARGIN YNEXT]) lines,
        set_text_color C_DARK,
        set_xy x0 (y0 + height + 2)] s)"

definition code_block :: "env \<Rightarrow> string \<Rightarrow> string \<Rightarrow> pdf \<Rightarrow> pdf" where
  "code_block e code lang s = code_block_paint e code lang (code_block_place e code s)"

definition divider :: "pdf \<Rightarrow> pdf" where
  "divider = seq [
     ln 2,
     set_draw_color C_LIGHT,
     set_line_width (3 / 10),
     (\<lambda>s. line l_margin (cur_y s) (l_margin + 174) (cur_y s) s),
     ln 3]"

definition bullet :: "env \<Rightarrow> string \<Rightarrow> rat \<Rightarrow> pdf \<Rightarrow> pdf" where
  "bullet e txt indent =
     (let x0 = l_margin + indent
      in seq [
        set_font ''Sans'' [] (19 / 2),
        set_text_color C_MID,
        set_x x0,
        cell e 4 (11 / 2) bullet_mark ''L'' False XRIGHT YTOP,
        set_x (x0 + 5),
        multi_cell e (epw - indent - 5) (11 / 2) txt,
        set_text_color C_DARK])"

subsection \<open>Input records (lines 24--34)\<close>

text \<open>
  The two JSON files, already parsed. A key the script reads with \<^verbatim>\<open>[...]\<close> is a field;
  a key it reads with \<^verbatim>\<open>.get\<close> is an optional field. A score is a JSON number.
\<close>

record snippet =
  s_label :: string
  s_description :: "string option"
  s_code :: string
  s_language :: "string option"

record compliance =
  cf_regulation :: string
  cf_status :: string
  cf_score :: "rat option"
  cf_items :: "string list option"
  cf_articles :: "string list option"

record pattern =
  p_type :: string
  p_title :: string
  p_detail :: string

record llm =
  executive_summary :: string
  remediation_snippets :: "snippet list"
  compliance_findings :: "compliance list"
  anti_patterns :: "pattern list"

text \<open>\<^verbatim>\<open>str\<close> of a natural number.\<close>

definition digit_char :: "nat \<Rightarrow> char" where
  "digit_char n = char_of (48 + n)"

fun show_nat :: "nat \<Rightarrow> string" where
  "show_nat n = (if n < 10 then [digit_char n] else show_nat (n div 10) @ [digit_char (n mod 10)])"

subsection \<open>Cover page (lines 243--332)\<close>

definition cover_row :: "env \<Rightarrow> string \<Rightarrow> string \<Rightarrow> bool \<Rightarrow> pdf \<Rightarrow> pdf" where
  "cover_row e k v fill = seq [
     set_font ''Sans'' ''B'' (19 / 2),
     set_fill_color (if fill then C_LIGHT else C_WHITE),
     set_text_color C_MID,
     cell e 50 7 (''  '' @ k) ''L'' True XRIGHT YTOP,
     set_font ''Sans'' [] (19 / 2),
     set_text_color C_DARK,
     cell e 0 7 (''  '' @ v) ''L'' True XLMARGIN YNEXT]"

text \<open>
  The severity counts (lines 294--302). The first assignment scans the executive summary
  line by line: a line counts for a severity when it contains \<^verbatim>\<open>"| " + sev\<close>, or when
  its lower-cased form contains the lower-cased needle. The second assignment replaces the
  dictionary by a literal.
\<close>

fun is_prefix :: "string \<Rightarrow> string \<Rightarrow> bool" where
  "is_prefix [] ys = True"
| "is_prefix (x # xs) [] = False"
| "is_prefix (x # xs) (y # ys) = (x = y \<and> is_prefix xs ys)"

fun contains :: "string \<Rightarrow> string \<Rightarrow> bool" where
  "contains needle [] = (needle = [])"
| "contains needle (y # ys) = (is_prefix needle (y # ys) \<or> contains needle ys)"

definition lower_char :: "char \<Rightarrow> char" where
  "lower_char c = (let n = of_char c :: nat in if 65 \<le> n \<and> n \<le> 90 then char_of (n + 32) else c)"

definition lower :: "string \<Rightarrow> string" where
  "lower = map lower_char"

definition count_line :: "string \<Rightarrow> (string \<times> nat) list \<Rightarrow> (string \<times> nat) list" where
  "count_line l counts =
     map (\<lambda>(sev, n).
        (sev, if contains (''| '' @ sev) l \<or> contains (''| '' @ lower sev) (lower l)
              then n + 1 else n)) counts"

definition scan_counts :: "string \<Rightarrow> (string \<times> nat) list" where
  "scan_counts summary =
     foldl (\<lambda>counts l. count_line l counts)
       [(''Critical'', 0), (''High'', 0), (''Medium'', 0), (''Low'', 0)]
       (split_on newline summary)"

definition cover_counts :: "llm \<Rightarrow> (string \<times> nat) list" where
  "cover_counts d =
     (let counts = scan_counts (executive_summary d);
          counts = [(''Critical'', 2), (''High'', 1), (''Medium'', 1), (''Low'', 0)]
      in counts)"

text \<open>One box of the ``Findings at a Glance'' row. \<^verbatim>\<open>SEVERITY_COLOR[sev]\<close> is a subscript;
  the keys of the counts are keys of that dictionary.\<close>

definition cover_badge :: "env \<Rightarrow> string \<times> nat \<Rightarrow> pdf \<Rightarrow> pdf" where
  "cover_badge e = (\<lambda>(sev, cnt). \<lambda>s.
     (let color = the (map_of SEVERITY_COLOR sev);
          bg = severity_bg sev;
          x0 = cur_x s; y0 = cur_y s
      in seq [
        set_fill_color bg,
        set_draw_color color,
        set_line_width (1 / 2),
        rect x0 y0 38 20 ''DF'',
        set_font ''Sans'' ''B'' 18,
        set_text_color color,
        set_xy x0 (y0 + 2),
        cell e 38 10 (show_nat cnt) ''C'' False XRIGHT YTOP,
        set_font ''Sans'' [] 8,
        set_text_color C_MID,
        set_xy x0 (y0 + 12),
        cell e 38 6 sev ''C'' False XRIGHT YTOP,
        set_xy (x0 + 42) y0] s))"

definition cover :: "env \<Rightarrow> llm \<Rightarrow> pdf \<Rightarrow> pdf" where
  "cover e d = seq [
     set_fill_color C_DARK,
     rect 0 0 210 55 ''F'',
     set_text_color C_WHITE,
     set_font ''Sans'' ''B'' 22,
     set_xy 18 12,
     cell e 0 10 ''Penetration Test Report'' ''L'' False XRIGHT YTOP,
     set_font ''Sans'' [] 12,
     set_xy 18 24,
     cell e 0 8 ''Automated Red Teaming  |  AutoRed.AI v1.0'' ''L'' False XRIGHT YTOP,
     set_fill_color C_BLUE,
     rect 18 34 80 (3 / 2) ''F'',
     set_font ''Sans'' ''B'' 14,
     set_xy 18 37,
     cell e 0 8 (''Target:  '' @ TARGET e) ''L'' False XRIGHT YTOP,
     set_text_color C_DARK,
     set_xy 0 60,
     ln 4,
     cover_row e ''Target'' (TARGET e) False,
     cover_row e ''Session ID'' (SESSION_ID e) True,
     cover_row e ''Completed'' (COMPLETED e) False,
     cover_row e ''Engine'' (''AutoRed.AI v1.0 '' @ em_dash @ '' Claude AI + Kali MCP'') True,
     cover_row e ''Classification'' ''CONFIDENTIAL'' False,
     ln 8,
     set_font ''Sans'' ''B'' 10,
     set_text_color C_MID,
     cell e 0 6 ''Findings at a Glance'' ''L'' False XLMARGIN YNEXT,
     ln 2,
     for_each (cover_badge e) (cover_counts d),
     set_text_color C_DARK,
     ln 26,
     set_font ''Sans'' [] 8,
     set_text_color (148, 163, 184),
     cell e 0 5 (''This report was generated automatically. All findings should be independently verified ''
       @ ''before remediation.'') ''C'' False XRIGHT YTOP,
     set_text_color C_DARK]"

subsection \<open>Section 1, Overview (lines 335--359)\<close>

definition overview :: "env \<Rightarrow> pdf \<Rightarrow> pdf" where
  "overview e = seq [
     h2 e ''1.1  Target Profile'',
     for_each (\<lambda>(i, k, v). kv_row e k v (i mod 2 = 0)) (enumerate 0 [
       (''Target'', TARGET e),
       (''OS'', ''Linux (Ubuntu 20.04)''),
       (''Tech Stack'', ''Apache 2.4 '' @ middot @ '' Tomcat 9.0 '' @ middot @ '' MySQL 8.0 ''
          @ middot @ '' OpenSSH 8.2''),
       (''Security Posture'', ''Weak''),
       (''Risk Level'', ''High-Value'')]),
     h2 e ''1.2  Test Scope'',
     kv_row e ''Target'' (TARGET e) False,
     kv_row e ''Services'' (''SSH (22) '' @ middot @ '' HTTP (80) '' @ middot @ '' HTTPS (443) ''
        @ middot @ '' MySQL (3306) '' @ middot @ '' Tomcat (8080)'') True,
     kv_row e ''Paths Attempted'' ''4'' False,
     kv_row e ''Exploited'' ''3 of 4'' True,
     kv_row e ''Defenses Held'' (''1 '' @ em_dash @ '' SSH brute-force blocked by fail2ban'') False,
     h2 e ''1.3  Test Timeline'',
     kv_row e ''Authorized Time'' ''2026-02-24'' False,
     kv_row e ''Completed At'' (COMPLETED e) True,
     kv_row e ''Engine'' (''AutoRed.AI v1.0 '' @ em_dash
        @ '' Automated Gray-Box via Claude AI + Kali MCP'') False]"

subsection \<open>Section 2, Test Policy (lines 362--411)\<close>

definition remediation_note :: "string \<Rightarrow> string" where
  "remediation_note label =
     (if label = ''Critical'' then ''Must fix immediately '' @ em_dash @ '' highest priority''
      else if label = ''High'' then ''Must fix immediately''
      else if label = ''Medium'' then ''Recommended fix '' @ em_dash @ '' medium priority''
      else ''Address per risk appetite'')"

definition level_row :: "env \<Rightarrow> nat \<times> string \<times> string \<times> color \<times> color \<Rightarrow> pdf \<Rightarrow> pdf" where
  "level_row e = (\<lambda>(i, score_range, label, fg, bg).
     (let fill = (i mod 2 = 0)
      in seq [
        set_fill_color (if fill then C_LIGHT else C_WHITE),
        set_font ''Sans'' [] 9,
        set_text_color C_MID,
        cell e 40 (13 / 2) (''  '' @ score_range) ''L'' True XRIGHT YTOP,
        set_fill_color bg,
        set_font ''Sans'' ''B'' (17 / 2),
        set_text_color fg,
        cell e 30 (13 / 2) label ''L'' True XRIGHT YTOP,
        set_fill_color (if fill then C_LIGHT else C_WHITE),
        set_font ''Sans'' [] 9,
        set_text_color C_MID,
        cell e 0 (13 / 2) (''  '' @ remediation_note label) ''L'' True XLMARGIN YNEXT]))"

definition policy :: "env \<Rightarrow> pdf \<Rightarrow> pdf" where
  "policy e = seq [
     h2 e ''2.1  Test Method'',
     body e (''This penetration test uses an automated gray-box test method powered by Claude AI agents ''
       @ ''connected to a live Kali Linux environment via MCP (Model Context Protocol). The agent ''
       @ ''autonomously discovers services, identifies vulnerabilities, and attempts exploitation ''
       @ ''using an OODA-loop-based reasoning engine without prior knowledge of internal architecture.'') 0,
     h2 e ''2.2  Tools Used'',
     for_each (\<lambda>(i, k, v). kv_row e k v (i mod 2 = 0)) (enumerate 0 [
       (''Port & Service Identification'', ''nmap, httpx''),
       (''Vulnerability Research'', ''searchsploit, Nuclei''),
       (''Exploitation'', ''Custom MCP shell tools (Kali container)''),
       (''Credential Testing'', ''Hydra, manual default credential checks'')]),
     h2 e ''2.3  Vulnerability Level Definition'',
     for_each (level_row e) (enumerate 0 [
       (''9.0 '' @ en_dash @ '' 10.0'', ''Critical'', C_RED, C_BADGE_RED),
       (''7.0 '' @ en_dash @ '' 8.9'', ''High'', C_ORANGE, (255, 237, 213)),
       (''4.0 '' @ en_dash @ '' 6.9'', ''Medium'', C_YELLOW, (254, 249, 195)),
       (''0.0 '' @ en_dash @ '' 3.9'', ''Low'', C_GREEN, C_BADGE_GRN)]),
     set_text_color C_DARK]"

subsection \<open>Section 3, Test Result Summary (lines 414--468)\<close>

definition col_w :: "rat list" where
  "col_w = [10, 70, 68, 14, 12]"

definition summary_row :: "env \<Rightarrow> nat \<times> string \<times> string \<times> string \<times> string \<times> string \<Rightarrow> pdf \<Rightarrow> pdf" where
  "summary_row e = (\<lambda>(i, no, addr, vuln, sev, cvss).
     (let fill = (i mod 2 = 0);
          sev_color = dict_get SEVERITY_COLOR sev C_MID;
          sev_bg = severity_bg sev
      in seq [
        set_fill_color (if fill then C_LIGHT else C_WHITE),
        set_font ''Sans'' [] (17 / 2),
        set_text_color C_MID,
        cell e (col_w ! 0) (13 / 2) ('' '' @ no) ''L'' True XRIGHT YTOP,
        cell e (col_w ! 1) (13 / 2) ('' '' @ addr) ''L'' True XRIGHT YTOP,
        cell e (col_w ! 2) (13 / 2) ('' '' @ vuln) ''L'' True XRIGHT YTOP,
        set_fill_color sev_bg,
        set_text_color sev_color,
        set_font ''Sans'' ''B'' 8,
        cell e (col_w ! 3) (13 / 2) ('' '' @ sev) ''L'' True XRIGHT YTOP,
        set_fill_color (if fill then C_LIGHT else C_WHITE),
        set_font ''Sans'' ''B'' (17 / 2),
        set_text_color C_MID,
        cell e (col_w ! 4) (13 / 2) cvss ''C'' True XLMARGIN YNEXT]))"

definition summary_rows :: "(string \<times> string \<times> string \<times> string \<times> string) list" where
  "summary_rows = [
     (''1'', ''192.168.1.100:80/login'', ''SQL Injection on Login Endpoint'', ''Critical'', ''9.8''),
     (''2'', ''192.168.1.100:8080/manager'', ''Default Tomcat Manager Credentials'', ''Critical'', ''9.1''),
     (''3'', ''192.168.1.100:3306/mysql'', ''Unencrypted Remote Root MySQL Access'', ''High'', ''8.6''),
     (''4'', ''192.168.1.100:80'', ''Missing Web Application Firewall'', ''Medium'', ''5.3'')]"

definition result_summary :: "env \<Rightarrow> pdf \<Rightarrow> pdf" where
  "result_summary e = seq [
     body e (''Penetration testing was executed against '' @ TARGET e
       @ ''. 4 vulnerabilities were discovered across 5 services.'') 0,
     ln 2,
     set_fill_color C_DARK,
     set_text_color C_WHITE,
     set_font ''Sans'' ''B'' 9,
     for_each (\<lambda>(w, h). cell e w 7 ('' '' @ h) ''L'' True XRIGHT YTOP)
       (zip col_w [''No.'', ''Target:Port'', ''Vulnerability'', ''Severity'', ''CVSS'']),
     ln_last,
     set_text_color C_DARK,
     for_each (summary_row e) (enumerate 0 summary_rows),
     set_text_color C_DARK,
     ln 4,
     body e (''Summary: 2 Critical, 1 High, 1 Medium. ''
       @ ''3 of 4 attack paths successfully exploited. ''
       @ ''1 defense held '' @ em_dash @ '' SSH brute-force blocked by fail2ban.'') 0]"

subsection \<open>Section 4, Test Result Description (lines 471--586)\<close>

record finding =
  f_title :: string
  f_severity :: string
  f_cvss :: string
  f_address :: string
  f_procedure :: string
  f_risk :: string
  f_fix :: string

definition findings :: "finding list" where
  "findings = [
     \<lparr>f_title = ''SQL Injection on Login Endpoint'',
      f_severity = ''Critical'',
      f_cvss = ''9.8'',
      f_address = ''192.168.1.100:80/login '' @ em_dash @ '' Apache HTTP (port 80)'',
      f_procedure =
        ''Submitted a union-based SQL injection payload to the /login form's username parameter:''
        @ [newline, newline]
        @ ''  username=' UNION SELECT 1,username,password,4 FROM users-- -&password=x''
        @ [newline, newline]
        @ ''The server returned a 200 OK response containing user credential hashes.'',
      f_risk =
        ''The login endpoint performs no input sanitization or parameterized queries. ''
        @ ''Successful exploitation exposes 2,847 user records and 15,203 payment records ''
        @ ''to unauthorized read access.'',
      f_fix =
        ''Use parameterized queries or prepared statements in all database interactions. ''
        @ ''Deploy an AWS WAF rule to block SQLi patterns. ''
        @ ''Implement input validation on all user-supplied parameters.''\<rparr>,
     \<lparr>f_title = ''Default Credentials on Tomcat Manager'',
      f_severity = ''Critical'',
      f_cvss = ''9.1'',
      f_address = ''192.168.1.100:8080/manager/html '' @ em_dash @ '' Apache Tomcat 9.0 (port 8080)'',
      f_procedure =
        ''Navigated to the Tomcat Manager web console and authenticated using ''
        @ ''factory-default credentials tomcat:tomcat. Login succeeded on the first attempt.'',
      f_risk =
        ''With Manager access, an attacker can deploy arbitrary WAR files, achieving ''
        @ ''remote code execution on the host. No exploit is required '' @ em_dash
        @ '' only the default password.'',
      f_fix =
        ''Change all Tomcat Manager credentials immediately. ''
        @ ''Disable the Manager application in production environments. ''
        @ ''Restrict /manager by IP allowlist at the reverse proxy.''\<rparr>,
     \<lparr>f_title = ''Unencrypted Remote Root MySQL Access'',
      f_severity = ''High'',
      f_cvss = ''8.6'',
      f_address = ''192.168.1.100:3306/mysql '' @ em_dash @ '' MySQL 8.0 (port 3306)'',
      f_procedure =
        ''Connected from an external host without TLS using the root account:''
        @ [newline, newline]
        @ ''  mysql -h 192.168.1.100 -u root -p --ssl-mode=DISABLED''
        @ [newline, newline]
        @ ''Root login succeeded over an unencrypted connection.'',
      f_risk =
        ''Allows a network-positioned attacker to read, modify, or delete all databases. ''
        @ ''Credentials can be captured via packet capture on the same subnet.'',
      f_fix =
        ''Disable remote root login. Bind MySQL to localhost (bind-address = 127.0.0.1). ''
        @ ''Enforce TLS. Restrict port 3306 to the internal application subnet only.''\<rparr>,
     \<lparr>f_title = ''Missing Web Application Firewall'',
      f_severity = ''Medium'',
      f_cvss = ''5.3'',
      f_address = ''192.168.1.100:80 '' @ em_dash @ '' Apache HTTP (port 80)'',
      f_procedure =
        ''Sent SQLi, XSS, and path traversal payloads to the web application. ''
        @ ''No WAF, rate limiting, or input filtering was detected '' @ em_dash @ '' ''
        @ ''all payloads reached the application unmodified.'',
      f_risk =
        ''All OWASP Top 10 attack patterns reach the application directly. ''
        @ ''The SQL injection in Finding 4.1 was amplified by the absence of perimeter filtering.'',
      f_fix =
        ''Deploy AWS WAF, Cloudflare WAF, or mod_security with the OWASP Core Rule Set ''
        @ ''in front of Apache. Enable rate limiting on authentication endpoints.''\<rparr>]"

definition render_finding :: "env \<Rightarrow> nat \<times> finding \<Rightarrow> pdf \<Rightarrow> pdf" where
  "render_finding e = (\<lambda>(idx, f). seq [
     h2 e (''4.'' @ show_nat (idx + 1) @ ''  '' @ f_title f),
     set_font ''Sans'' [] 9,
     set_text_color C_MID,
     cell e 20 6 ''Severity:'' ''L'' False XRIGHT YTOP,
     severity_badge e (f_severity f),
     set_font ''Sans'' [] 9,
     set_text_color C_MID,
     cell e 12 6 ''   CVSS:'' ''L'' False XRIGHT YTOP,
     set_font ''Sans'' ''B'' 9,
     set_text_color (dict_get SEVERITY_COLOR (f_severity f) C_MID),
     cell e 0 6 (''  '' @ f_cvss f) ''L'' False XLMARGIN YNEXT,
     set_text_color C_DARK,
     ln 1,
     h3 e ''Test Address'',
     body e (f_address f) 2,
     h3 e ''Test Procedure'',
     body e (f_procedure f) 2,
     h3 e ''Vulnerability Risk'',
     body e (f_risk f) 2,
     h3 e ''Vulnerability Fix Suggestion'',
     body e (f_fix f) 2,
     (if idx < length findings - 1 then divider else id)])"

definition findings_detail :: "env \<Rightarrow> pdf \<Rightarrow> pdf" where
  "findings_detail e = for_each (render_finding e) (enumerate 0 findings)"

subsection \<open>Section 5, Security Suggestions (lines 589--669)\<close>

definition recs :: "(string \<times> string) list" where
  "recs = [
     (''Network Segmentation'',
      ''Port 3306 (MySQL) must not be internet-exposed. ''
      @ ''Place the database on an isolated subnet accessible only from the application tier.''),
     (''WAF Deployment'',
      ''Deploy AWS WAF, Cloudflare WAF, or mod_security with OWASP CRS ''
      @ ''before the next production deployment.''),
     (''Credential Management'',
      ''Implement a secrets manager (HashiCorp Vault or AWS Secrets Manager) ''
      @ ''to rotate and audit all service credentials automatically.''),
     (''Patch Management'',
      ''Tomcat 9.0 is approaching end-of-life. ''
      @ ''Upgrade to Tomcat 10.1+ and establish a quarterly patching schedule.'')]"

text \<open>\<^verbatim>\<open>"  \<cdot>  ".join(xs)\<close> with the given separator.\<close>

fun join :: "string \<Rightarrow> string list \<Rightarrow> string" where
  "join sep [] = []"
| "join sep [a] = a"
| "join sep (a # as) = a @ sep @ join sep as"

text \<open>One compliance card. The style is looked up with a default triple; the score is
  \<^verbatim>\<open>cf.get("score", 0) or 0\<close>.\<close>

definition status_style :: "string \<Rightarrow> color \<times> color \<times> string" where
  "status_style status = dict_get STATUS_COLOR status (C_MID, C_LIGHT, status)"

definition score_of :: "compliance \<Rightarrow> rat" where
  "score_of cf = (case cf_score cf of None \<Rightarrow> 0 | Some v \<Rightarrow> if v = 0 then 0 else v)"

definition compliance_card :: "env \<Rightarrow> compliance \<Rightarrow> pdf \<Rightarrow> pdf" where
  "compliance_card e cf =
     (let reg = cf_regulation cf;
          status = cf_status cf;
          score = score_of cf;
          (fg, bg, label) = status_style status
      in seq [
        ln 2,
        set_fill_color bg,
        set_draw_color fg,
        set_line_width (6 / 10),
        (\<lambda>s. let x0 = cur_x s; y0 = cur_y s in seq [
           rect x0 y0 174 7 ''DF'',
           set_font ''Sans'' ''B'' 10,
           set_text_color fg,
           set_xy (x0 + 2) (y0 + 1 / 2),
           cell e 100 6 reg ''L'' False XRIGHT YTOP,
           set_font ''Sans'' ''B'' 8,
           set_xy (x0 + 130) (y0 + 1 / 2),
           cell e 44 6 label ''R'' False XRIGHT YTOP,
           set_text_color C_DARK,
           set_xy x0 (y0 + 8),
           set_x (x0 + 2),
           set_font ''Sans'' [] 8,
           set_text_color C_MID,
           cell e 18 5 ''Score:'' ''L'' False XRIGHT YTOP,
           set_x (x0 + 20)] s),
        score_bar e score 100 5,
        ln 7,
        set_font ''Sans'' [] (17 / 2),
        set_text_color C_MID,
        for_each (\<lambda>item. bullet e item 4) (case cf_items cf of None \<Rightarrow> [] | Some xs \<Rightarrow> xs),
        ln 1,
        (case cf_articles cf of
           None \<Rightarrow> id
         | Some arts \<Rightarrow>
             if arts = [] then id
             else seq [
               set_font ''Sans'' [] 8,
               set_text_color (100, 116, 139),
               set_x (l_margin + 4),
               multi_cell e 0 (9 / 2) (''  References: '' @ join (''  '' @ middot @ ''  '') arts)]),
        ln 2])"

definition suggestions :: "env \<Rightarrow> llm \<Rightarrow> pdf \<Rightarrow> pdf" where
  "suggestions e d = seq [
     h2 e ''5.1  Vulnerability Fixing Suggestions'',
     body e (''Remediate Critical findings within 24 hours. The SQL injection and default Tomcat ''
       @ ''credentials independently allow full system compromise and must not coexist in production. ''
       @ ''When fixing, consider the full attack surface '' @ em_dash @ '' the absence of a WAF amplified the SQL ''
       @ ''injection impact. Defense-in-depth prevents single points of failure.'') 0,
     h2 e ''5.2  Security Protection Recommendations'',
     for_each (\<lambda>(rec_title, rec_body). seq [
        set_font ''Sans'' ''B'' (19 / 2),
        set_text_color C_DARK,
        cell e 0 6 (''  '' @ rec_title) ''L'' False XLMARGIN YNEXT,
        body e rec_body 4]) recs,
     h2 e (''5.3  Compliance & Audit Overview''),
     for_each (compliance_card e) (compliance_findings d)]"

subsection \<open>Section 6, Remediation as Code (lines 672--688)\<close>

definition render_snippet :: "env \<Rightarrow> snippet \<Rightarrow> pdf \<Rightarrow> pdf" where
  "render_snippet e snip = seq [
     h2 e (s_label snip),
     set_font ''Sans'' [] 9,
     set_text_color C_MID,
     multi_cell e 0 (11 / 2) (case s_description snip of None \<Rightarrow> [] | Some t \<Rightarrow> t),
     set_text_color C_DARK,
     ln 2,
     code_block e (s_code snip) (case s_language snip of None \<Rightarrow> [] | Some l \<Rightarrow> l),
     ln 3]"

definition remediation_code :: "env \<Rightarrow> llm \<Rightarrow> pdf \<Rightarrow> pdf" where
  "remediation_code e d = seq [
     body e (''The following infrastructure-as-code snippets provide ready-to-deploy fixes ''
       @ ''for the critical and high vulnerabilities identified in this assessment.'') 0,
     for_each (render_snippet e) (remediation_snippets d)]"

subsection \<open>Section 7, Learned Anti-Patterns (lines 691--753)\<close>

text \<open>
  The two loops (lines 705--727 and 732--753) are the same statements with another fill
  colour, border colour and mark; the model writes the card once, in three steps: the
  dry-run measurement with the computed height, the page-break decision, the painting.
\<close>

definition card_height :: "env \<Rightarrow> pattern \<Rightarrow> pdf \<Rightarrow> rat" where
  "card_height e p s =
     (let lines = multi_cell_dry_run e 158 (p_detail p) s
      in 7 + of_nat (length lines) * (11 / 2) + 4)"

definition card_place :: "env \<Rightarrow> pattern \<Rightarrow> pdf \<Rightarrow> pdf \<times> rat \<times> rat \<times> rat" where
  "card_place e p s =
     (let x0 = cur_x s; y0 = cur_y s;
          s1 = set_font ''Sans'' [] 9 s;
          card_h = card_height e p s1
      in if cur_y s1 + card_h > page_h - b_margin
         then (let s2 = add_page e s1 in (s2, cur_x s2, cur_y s2, card_h))
         else (s1, x0, y0, card_h))"

definition card_paint ::
  "env \<Rightarrow> color \<Rightarrow> color \<Rightarrow> string \<Rightarrow> pattern \<Rightarrow> pdf \<times> rat \<times> rat \<times> rat \<Rightarrow> pdf" where
  "card_paint e bg fg mark p = (\<lambda>(s, x0, y0, card_h). seq [
     set_fill_color bg,
     set_draw_color fg,
     set_line_width (1 / 2),
     rect x0 y0 174 card_h ''DF'',
     set_xy (x0 + 3) (y0 + 2),
     set_font ''Sans'' ''B'' (19 / 2),
     set_text_color fg,
     cell e 0 (11 / 2) (mark @ ''  '' @ p_title p) ''L'' False XLMARGIN YNEXT,
     (\<lambda>s. set_xy (x0 + 5) (cur_y s) s),
     set_font ''Sans'' [] 9,
     set_text_color C_MID,
     multi_cell e 164 (11 / 2) (p_detail p),
     set_xy x0 (y0 + card_h + 3),
     set_text_color C_DARK] s)"

definition card :: "env \<Rightarrow> color \<Rightarrow> color \<Rightarrow> string \<Rightarrow> pattern \<Rightarrow> pdf \<Rightarrow> pdf" where
  "card e bg fg mark p s = card_paint e bg fg mark p (card_place e p s)"

definition positives :: "llm \<Rightarrow> pattern list" where
  "positives d = filter (\<lambda>p. p_type p = ''positive'') (anti_patterns d)"

definition negatives :: "llm \<Rightarrow> pattern list" where
  "negatives d = filter (\<lambda>p. p_type p = ''negative'') (anti_patterns d)"

definition anti_patterns_section :: "env \<Rightarrow> llm \<Rightarrow> pdf \<Rightarrow> pdf" where
  "anti_patterns_section e d = seq [
     body e (''Observations from the engagement '' @ em_dash @ '' both defenses that held ''
       @ ''and weaknesses that were exploited or amplified.'') 0,
     ln 2,
     (if positives d \<noteq> [] then seq [
        h2 e (''Positive '' @ em_dash @ '' Security Controls That Held''),
        for_each (card e C_POS_BG C_GREEN check_mark) (positives d)]
      else id),
     (if negatives d \<noteq> [] then seq [
        ln 4,
        h2 e (''Negative '' @ em_dash @ '' Weaknesses Observed''),
        for_each (card e C_NEG_BG C_RED cross_mark) (negatives d)]
      else id)]"

subsection \<open>The document assembler\<close>

text \<open>
  The script is one straight line of statements under eight section comments. Each
  section is split here into how it starts (a new page or not, and its banner) and the
  rest; \<open>build\<close> runs them in the order of the file and \<open>generate\<close> closes the document.
\<close>

datatype section_id =
  Cover | Overview | Policy | ResultSummary | FindingsDetail | Suggestions | RemediationCode
  | AntiPatterns

definition sections :: "section_id list" where
  "sections = [Cover, Overview, Policy, ResultSummary, FindingsDetail, Suggestions,
     RemediationCode, AntiPatterns]"

fun section_start :: "env \<Rightarrow> section_id \<Rightarrow> pdf \<Rightarrow> pdf" where
  "section_start e Cover = add_page e"
| "section_start e Overview = seq [add_page e, h1 e ''1.  Overview'']"
| "section_start e Policy = h1 e ''2.  Test Policy''"
| "section_start e ResultSummary = seq [add_page e, h1 e ''3.  Test Result Summary'']"
| "section_start e FindingsDetail = seq [add_page e, h1 e ''4.  Test Result Description'']"
| "section_start e Suggestions = seq [add_page e, h1 e ''5.  Security Suggestions'']"
| "section_start e RemediationCode = seq [add_page e, h1 e ''6.  Remediation as Code'']"
| "section_start e AntiPatterns = seq [add_page e, h1 e ''7.  Learned Anti-Patterns'']"

fun section_body :: "env \<Rightarrow> llm \<Rightarrow> section_id \<Rightarrow> pdf \<Rightarrow> pdf" where
  "section_body e d Cover = cover e d"
| "section_body e d Overview = overview e"
| "section_body e d Policy = policy e"
| "section_body e d ResultSummary = result_summary e"
| "section_body e d FindingsDetail = findings_detail e"
| "section_body e d Suggestions = suggestions e d"
| "section_body e d RemediationCode = remediation_code e d"
| "section_body e d AntiPatterns = anti_patterns_section e d"

definition render_section :: "env \<Rightarrow> llm \<Rightarrow> section_id \<Rightarrow> pdf \<Rightarrow> pdf" where
  "render_section e d sec = seq [section_start e sec, section_body e d sec]"



subsection \<open>Reading the log\<close>

text \<open>What a call has painted: the log after it, less the log before it.\<close>

definition new_ops :: "pdf \<Rightarrow> pdf \<Rightarrow> painted list" where
  "new_ops s s' = drop (length (ops s)) (ops s')"

fun rect_width :: "prim \<Rightarrow> rat option" where
  "rect_width (Rect x y w h style) = Some w"
| "rect_width (Line x1 y1 x2 y2) = None"
| "rect_width (Cell x y w h txt align fill) = None"

fun rect_right :: "prim \<Rightarrow> rat option" where
  "rect_right (Rect x y w h style) = Some (x + w)"
| "rect_right (Line x1 y1 x2 y2) = None"
| "rect_right (Cell x y w h txt align fill) = None"

fun rect_bottom :: "prim \<Rightarrow> rat option" where
  "rect_bottom (Rect x y w h style) = Some (y + h)"
| "rect_bottom (Line x1 y1 x2 y2) = None"
| "rect_bottom (Cell x y w h txt align fill) = None"

fun cell_left :: "prim \<Rightarrow> rat option" where
  "cell_left (Cell x y w h txt align fill) = Some x"
| "cell_left (Rect x y w h style) = None"
| "cell_left (Line x1 y1 x2 y2) = None"

fun cell_right :: "prim \<Rightarrow> rat option" where
  "cell_right (Cell x y w h txt align fill) = Some (x + w)"
| "cell_right (Rect x y w h style) = None"
| "cell_right (Line x1 y1 x2 y2) = None"

fun cell_text :: "prim \<Rightarrow> string option" where
  "cell_text (Cell x y w h txt align fill) = Some txt"
| "cell_text (Rect x y w h style) = None"
| "cell_text (Line x1 y1 x2 y2) = None"

text \<open>The fill rectangle of a score bar is the second thing \<open>score_bar\<close> paints.\<close>

definition score_fill :: "env \<Rightarrow> rat \<Rightarrow> rat \<Rightarrow> rat \<Rightarrow> pdf \<Rightarrow> painted" where
  "score_fill e score width height s = new_ops s (score_bar e score width height s) ! 1"

text \<open>The score label is the last thing \<open>score_bar\<close> paints.\<close>

definition score_label :: "env \<Rightarrow> rat \<Rightarrow> rat \<Rightarrow> rat \<Rightarrow> pdf \<Rightarrow> painted" where
  "score_label e score width height s = last (ops (score_bar e score width height s))"

text \<open>The fill width as the specification words it: the proportional width, clamped to
  the bar.\<close>

definition spec_fill_width :: "rat \<Rightarrow> rat \<Rightarrow> rat" where
  "spec_fill_width score width = max 0 (min width ((score / 100) * width))"



text \<open>The cells the page body has painted in a given font, in the order painted, each with
  its text, its text colour and its fill colour (cells of the running header and footer
  are left out); and their texts alone.\<close>

definition body_cells :: "font \<Rightarrow> painted list \<Rightarrow> (string \<times> color \<times> color) list" where
  "body_cells f os =
     List.map_filter
       (\<lambda>a. if painter a = Body \<and> fnt a = f
            then map_option (\<lambda>t. (t, text_c a, fill_c a)) (cell_text (prim a)) else None) os"


text \<open>
  While the body is painting, a method takes the current font, text colour and fill
  colour, and the cells painted so far in a font F, from g to g'; a method adds cells to
  those painted in F when it appends them, from whatever font and colours it starts.
\<close>

type_synonym tstate = "(font \<times> color \<times> color) \<times> (string \<times> color \<times> color) list"

definition tview :: "font \<Rightarrow> pdf \<Rightarrow> tstate" where
  "tview F s = ((font s, text_color s, fill_color s), body_cells F (ops s))"

definition tmoves :: "font \<Rightarrow> (pdf \<Rightarrow> pdf) \<Rightarrow> tstate \<Rightarrow> tstate \<Rightarrow> bool" where
  "tmoves F f g g' \<longleftrightarrow>
     (\<forall>s. drawing s = Body \<and> tview F s = g \<longrightarrow> drawing (f s) = Body \<and> tview F (f s) = g')"

definition adds :: "font \<Rightarrow> (pdf \<Rightarrow> pdf) \<Rightarrow> (string \<times> color \<times> color) list \<Rightarrow> bool" where
  "adds F f new \<longleftrightarrow> (\<forall>fn tc fc ts. \<exists>v. tmoves F f ((fn, tc, fc), ts) (v, ts @ new))"

text \<open>
  The body of an anti-pattern card, at the state in which the body is painted: the height
  the measurement of line 709 puts into \<^verbatim>\<open>card_h\<close> for it (the lines of the dry run at
  width 158, times the line height), and the height the paint of line 725 consumes (how
  far \<^verbatim>\<open>multi_cell\<close> at width 164 moves the cursor down).
\<close>

definition card_body_reserved :: "env \<Rightarrow> pattern \<Rightarrow> pdf \<Rightarrow> rat" where
  "card_body_reserved e p s =
     of_nat (length (multi_cell_dry_run e 158 (p_detail p) s)) * (11 / 2)"

definition card_body_painted :: "env \<Rightarrow> pattern \<Rightarrow> pdf \<Rightarrow> rat" where
  "card_body_painted e p s = cur_y (multi_cell e 164 (11 / 2) (p_detail p) s) - cur_y s"

text \<open>The document after the first n sections.\<close>

definition build_upto :: "env \<Rightarrow> llm \<Rightarrow> nat \<Rightarrow> pdf" where
  "build_upto e d n = for_each (render_section e d) (take n sections) init_pdf"

text \<open>
  Where a state stands: the page, the ordinate of the cursor, and who is painting. A
  method moves a document from g to g' when it takes every state standing at g to a state
  standing at g'.
\<close>

type_synonym geom = "nat \<times> rat \<times> origin"

definition geom3 :: "pdf \<Rightarrow> geom" where
  "geom3 s = (page_no s, cur_y s, drawing s)"

definition moves :: "(pdf \<Rightarrow> pdf) \<Rightarrow> geom \<Rightarrow> geom \<Rightarrow> bool" where
  "moves f g g' \<longleftrightarrow> (\<forall>s. geom3 s = g \<longrightarrow> geom3 (f s) = g')"

text \<open>A method grows the log when it only appends to it.\<close>

definition grows :: "(pdf \<Rightarrow> pdf) \<Rightarrow> bool" where
  "grows f \<longleftrightarrow> (\<forall>s. prefix (ops s) (ops (f s)))"



subsection \<open>A sample font engine and sample inputs\<close>

text \<open>
  For evaluation at concrete inputs: the advance widths of DejaVu Sans (regular), in
  thousandths of the font size, for the characters of the sample texts (any other
  character is given 600); the width of a string in millimetres at a size in points; and
  greedy word wrapping, which is how the library breaks single-spaced text whose words
  each fit the line.
\<close>

definition sample_cw :: "char \<Rightarrow> nat" where
  "sample_cw c =
    (if c = CHR '' '' then 318 else if c = CHR ''e'' then 615 else if c = CHR ''t'' then 392
     else if c = CHR ''a'' then 613 else if c = CHR ''s'' then 521 else if c = CHR ''r'' then 411
     else if c = CHR ''o'' then 612 else if c = CHR ''i'' then 278 else if c = CHR ''n'' then 634
     else if c = CHR ''c'' then 550 else if c = CHR ''d'' then 635 else if c = CHR ''u'' then 634
     else if c = CHR ''b'' then 635 else if c = CHR ''f'' then 352 else if c = CHR ''h'' then 634
     else if c = CHR ''l'' then 278 else if c = CHR ''m'' then 974 else if c = CHR ''p'' then 635
     else if c = CHR ''g'' then 635 else if c = CHR ''k'' then 579 else if c = CHR ''q'' then 635
     else if c = CHR ''v'' then 592 else if c = CHR ''w'' then 818 else if c = CHR ''y'' then 592
     else if c = CHR ''x'' then 592 else if c = CHR ''z'' then 525 else if c = CHR ''j'' then 278
     else if c = CHR ''-'' then 361 else if c = CHR ''.'' then 318 else if c = CHR ''2'' then 636
     else if c = CHR ''T'' then 611 else if c = CHR ''S'' then 635 else if c = CHR ''H'' then 752
     else 600)"

definition sample_width :: "font \<Rightarrow> string \<Rightarrow> rat" where
  "sample_width = (\<lambda>(family, style, sz). \<lambda>s.
     of_nat (sum_list (map sample_cw s)) * sz * 254 / 720000)"

text \<open>Words with their widths are packed into lines: a word joins the line when the line,
  a space and the word fit the maximum width.\<close>

fun pack :: "rat \<Rightarrow> rat \<Rightarrow> string \<Rightarrow> rat \<Rightarrow> (string \<times> rat) list \<Rightarrow> string list" where
  "pack mw sp cur curw [] = [cur]"
| "pack mw sp cur curw ((wd, ww) # ps) =
     (if curw + sp + ww \<le> mw then pack mw sp (cur @ '' '' @ wd) (curw + sp + ww) ps
      else cur # pack mw sp wd ww ps)"

definition sample_wrap :: "font \<Rightarrow> rat \<Rightarrow> string \<Rightarrow> string list" where
  "sample_wrap f mw s =
     (case map (\<lambda>wd. (wd, sample_width f wd)) (split_on (CHR '' '') s) of
        [] \<Rightarrow> []
      | (wd, ww) # ps \<Rightarrow> pack mw (sample_width f '' '') wd ww ps)"

definition sample_str :: "rat \<Rightarrow> string" where
  "sample_str r = (if r < 0 then ''-'' else []) @ show_nat (nat \<lfloor>\<bar>r\<bar>\<rfloor>)"

definition sample_env :: env where
  "sample_env = \<lparr>TARGET = ''192.168.1.100'', SESSION_ID = ''3f9c2a7e-51d4-4c1b-9a6e-0d2b7c8e4f10'',
     COMPLETED = ''2026-02-24T18:42:07Z'', now_utc = ''2026-02-24 18:45 UTC'',
     str_num = sample_str, string_width = sample_width, wrap = sample_wrap\<rparr>"

definition sample_detail :: string where
  "sample_detail = ''The SSH service resisted brute-force attempts because fail2ban banned the source address quickly.''"

definition sample_pattern :: pattern where
  "sample_pattern = \<lparr>p_type = ''positive'', p_title = ''Brute-force protection'',
     p_detail = sample_detail\<rparr>"

text \<open>A code body of three lines.\<close>

definition sample_short_code :: string where
  "sample_short_code = ''a = 1'' @ [newline] @ ''b = 2'' @ [newline] @ ''c = 3''"

text \<open>A code body of sixty lines.\<close>

definition sample_code :: string where
  "sample_code = concat (replicate 59 (''x = 1'' @ [newline])) @ ''x = 1''"

definition sample_llm :: llm where
  "sample_llm = \<lparr>executive_summary = ''| Critical | SQL injection |'',
     remediation_snippets = [], compliance_findings = [],
     anti_patterns = [sample_pattern]\<rparr>"

text \<open>An anti-pattern list that interleaves the two types, and two compliance findings,
  the first with a status the table does not know.\<close>

definition mixed_patterns :: "pattern list" where
  "mixed_patterns =
     [\<lparr>p_type = ''negative'', p_title = ''No WAF'', p_detail = ''Payloads reached the application.''\<rparr>,
      \<lparr>p_type = ''positive'', p_title = ''Rate limiting'', p_detail = ''SSH brute force was throttled.''\<rparr>,
      \<lparr>p_type = ''negative'', p_title = ''Default credentials'', p_detail = ''Tomcat manager accepted them.''\<rparr>,
      \<lparr>p_type = ''positive'', p_title = ''TLS enforced'', p_detail = ''Plain HTTP was redirected.''\<rparr>]"

definition mixed_llm :: llm where
  "mixed_llm = sample_llm\<lparr>anti_patterns := mixed_patterns\<rparr>"

definition pending_cf :: compliance where
  "pending_cf = \<lparr>cf_regulation = ''ISO 27001'', cf_status = ''pending_review'',
     cf_score = Some 55, cf_items = Some [''A.9 access control not assessed''],
     cf_articles = None\<rparr>"

definition compliant_cf :: compliance where
  "compliant_cf = \<lparr>cf_regulation = ''GDPR'', cf_status = ''compliant'',
     cf_score = Some 90, cf_items = None, cf_articles = Some [''Art. 32'']\<rparr>"

section \<open>Properties\<close>

lemmas palette =
  C_DARK_def C_MID_def C_LIGHT_def C_WHITE_def C_RED_def C_ORANGE_def C_YELLOW_def
  C_GREEN_def C_BLUE_def C_BLUE_DARK_def C_BLUE_LITE_def C_BADGE_RED_def C_BADGE_YEL_def
  C_BADGE_GRN_def C_CODE_BG_def C_CODE_FG_def C_POS_BG_def C_NEG_BG_def

lemmas geometry =
  page_w_def page_h_def l_margin_def t_margin_def r_margin_def b_margin_def c_margin_def
  epw_def page_break_trigger_def

lemmas prims =
  set_fill_color_def set_text_color_def set_draw_color_def set_line_width_def set_font_def
  set_x_def set_y_def set_xy_def ln_def ln_last_def paint_def rect_def line_def cell_paint_def

subsection \<open>What the library methods leave in the log\<close>

lemma ops_add_page: "\<exists>zs. ops (add_page e s) = ops s @ zs"
  by (simp add: add_page_def render_footer_def footer_def header_def restore_gs_def prims Let_def)

lemma ops_cell: "\<exists>zs. ops (cell e w h t al fl nx ny s) = ops s @ zs"
  using ops_add_page[of e s]
  by (auto simp add: cell_def perform_page_break_def cell_paint_def paint_def Let_def)

lemma last_ops_cell:
  "\<exists>y' p o'. last (ops (cell e w h t al fl nx ny s)) =
     \<lparr>pg = p, painter = o', fill_c = fill_color s, text_c = text_color s,
      draw_c = draw_color s, fnt = font s,
      prim = Cell (cur_x s) y' (cell_width w s) h t al fl\<rparr>"
  by (simp add: cell_def perform_page_break_def cell_paint_def paint_def Let_def cell_width_def
      add_page_def restore_gs_def)

subsection \<open>The score bar\<close>

text \<open>The state in which \<open>score_bar\<close> paints its label, and the two facts about what it
  paints: the fill rectangle and the label cell.\<close>

lemma score_bar_second_op:
  "score_fill e score width height s =
     \<lparr>pg = page_no s, painter = drawing s,
      fill_c = (if score < 50 then C_RED else if score < 70 then C_YELLOW else C_GREEN),
      text_c = text_color s, draw_c = draw_color s, fnt = font s,
      prim = Rect (cur_x s) (cur_y s) ((score / 100) * width) height ''F''\<rparr>"
proof -
  let ?s4 = "seq [set_fill_color C_LIGHT,
        rect (cur_x s) (cur_y s) width height ''F'',
        set_fill_color (if score < 50 then C_RED else if score < 70 then C_YELLOW else C_GREEN),
        rect (cur_x s) (cur_y s) ((score / 100) * width) height ''F'',
        set_font ''Sans'' ''B'' (15 / 2),
        set_text_color (if score < 50 then C_WHITE else C_DARK),
        set_xy (cur_x s + (score / 100) * width - 14) (cur_y s)] s"
  obtain zs where
    "ops (cell e 14 height (str_num e score @ ''/100'') ''R'' False XRIGHT YTOP ?s4) = ops ?s4 @ zs"
    using ops_cell by blast
  then show ?thesis
    by (simp add: score_fill_def score_bar_def new_ops_def Let_def prims nth_append)
qed

lemma score_bar_last_op:
  "\<exists>y' p o'. score_label e score width height s =
     \<lparr>pg = p, painter = o',
      fill_c = (if score < 50 then C_RED else if score < 70 then C_YELLOW else C_GREEN),
      text_c = (if score < 50 then C_WHITE else C_DARK),
      draw_c = draw_color s, fnt = (''Sans'', ''B'', 15 / 2),
      prim = Cell (if 0 \<le> cur_x s + (score / 100) * width - 14
                   then cur_x s + (score / 100) * width - 14
                   else page_w + (cur_x s + (score / 100) * width - 14))
               y' 14 height (str_num e score @ ''/100'') ''R'' False\<rparr>"
proof -
  let ?s4 = "seq [set_fill_color C_LIGHT,
        rect (cur_x s) (cur_y s) width height ''F'',
        set_fill_color (if score < 50 then C_RED else if score < 70 then C_YELLOW else C_GREEN),
        rect (cur_x s) (cur_y s) ((score / 100) * width) height ''F'',
        set_font ''Sans'' ''B'' (15 / 2),
        set_text_color (if score < 50 then C_WHITE else C_DARK),
        set_xy (cur_x s + (score / 100) * width - 14) (cur_y s)] s"
  obtain y' p o' where
    "last (ops (cell e 14 height (str_num e score @ ''/100'') ''R'' False XRIGHT YTOP ?s4)) =
     \<lparr>pg = p, painter = o', fill_c = fill_color ?s4, text_c = text_color ?s4,
      draw_c = draw_color ?s4, fnt = font ?s4,
      prim = Cell (cur_x ?s4) y' (cell_width 14 ?s4) height (str_num e score @ ''/100'')
        ''R'' False\<rparr>"
    using last_ops_cell by blast
  then show ?thesis
    by (simp add: score_label_def score_bar_def Let_def prims cell_width_def)
qed

text \<open>
  C4, as the code has it. The overlay rectangle \<open>score_bar\<close> paints has the width
  (score / 100) * width, whatever the score: there is no clamp. For a score in [0, 100]
  and a bar width that is not negative this width is the clamped width of the
  specification. For the score 35 the width is 0.35 * width and the fill colour is the
  low colour \<open>C_RED\<close>.
\<close>

theorem score_bar_fill_width:
  "score_fill e score width height s =
     \<lparr>pg = page_no s, painter = drawing s,
      fill_c = (if score < 50 then C_RED else if score < 70 then C_YELLOW else C_GREEN),
      text_c = text_color s, draw_c = draw_color s, fnt = font s,
      prim = Rect (cur_x s) (cur_y s) ((score / 100) * width) height ''F''\<rparr>
   \<and> (0 \<le> score \<and> score \<le> 100 \<and> 0 \<le> width \<longrightarrow>
        (score / 100) * width = spec_fill_width score width)
   \<and> rect_width (prim (score_fill e 35 width height s)) = Some (35 / 100 * width)
   \<and> fill_c (score_fill e 35 width height s) = C_RED"
proof -
  have "(score / 100) * width = spec_fill_width score width"
    if "0 \<le> score" "score \<le> 100" "0 \<le> width"
  proof -
    have "0 \<le> (score / 100) * width" using that by simp
    moreover have "(score / 100) * width \<le> 1 * width"
      using that by (intro mult_right_mono) auto
    ultimately show ?thesis by (simp add: spec_fill_width_def)
  qed
  then show ?thesis
    by (simp add: score_bar_second_op)
qed

theorem score_bar_fill_width_witness:
  "rect_width (prim (score_fill sample_env 35 100 5 (add_page sample_env init_pdf))) = Some 35
   \<and> fill_c (score_fill sample_env 35 100 5 (add_page sample_env init_pdf)) = C_RED
   \<and> (35 / 100) * 100 = spec_fill_width 35 100"
  using score_bar_fill_width[of sample_env 35 100 5 "add_page sample_env init_pdf"] by simp

text \<open>
  C4 as the specification states it fails: at the score 150 and the bar width 100 the
  rectangle painted is 150 wide, and the clamped width is 100.
\<close>

theorem score_bar_no_clamp_counterexample:
  "rect_width (prim (score_fill sample_env 150 100 5 (add_page sample_env init_pdf))) = Some 150
   \<and> spec_fill_width 150 100 = 100"
  by (simp add: score_bar_second_op spec_fill_width_def)

text \<open>
  C5. For a bar width that is not negative and scores s1 < s2 in [0, 100], the fill
  rectangle painted for s1 is at most as wide as the one painted for s2; the one painted
  for the score 0 has width 0 and the one painted for the score 100 has the width of the
  bar.
\<close>

theorem score_bar_monotone:
  assumes "0 \<le> width" and "0 \<le> s1" and "s1 < s2" and "s2 \<le> 100"
  shows "rect_width (prim (score_fill e s1 width height s)) = Some ((s1 / 100) * width)
    \<and> rect_width (prim (score_fill e s2 width height s)) = Some ((s2 / 100) * width)
    \<and> (s1 / 100) * width \<le> (s2 / 100) * width
    \<and> rect_width (prim (score_fill e 0 width height s)) = Some 0
    \<and> rect_width (prim (score_fill e 100 width height s)) = Some width"
proof -
  have "(s1 / 100) * width \<le> (s2 / 100) * width"
    using assms by (intro mult_right_mono) auto
  then show ?thesis by (simp add: score_bar_second_op)
qed

theorem score_bar_monotone_witness:
  "rect_width (prim (score_fill sample_env 20 100 5 (add_page sample_env init_pdf))) = Some 20
    \<and> rect_width (prim (score_fill sample_env 80 100 5 (add_page sample_env init_pdf))) = Some 80
    \<and> (20 :: rat) \<le> 80
    \<and> rect_width (prim (score_fill sample_env 0 100 5 (add_page sample_env init_pdf))) = Some 0
    \<and> rect_width (prim (score_fill sample_env 100 100 5 (add_page sample_env init_pdf))) = Some 100"
  using score_bar_monotone[of 100 20 80 sample_env 5 "add_page sample_env init_pdf"] by simp

text \<open>
  C10. For a score that is not negative, a bar width that is not negative and a bar that
  starts at least 14 from the left edge of the page (the script draws its bars at x = 38):
  the label is a cell of width 14, right-aligned, whose right edge is the right edge of
  the fill rectangle, so its left edge is at x + (score / 100) * width - 14; and when
  (score / 100) * width < 14 that left edge lies left of the origin x of the bar.
\<close>

theorem score_bar_label_position:
  assumes "0 \<le> score" and "0 \<le> width" and "14 \<le> cur_x s"
  shows "(\<exists>y'. prim (score_label e score width height s)
             = Cell (cur_x s + (score / 100) * width - 14) y' 14 height
                 (str_num e score @ ''/100'') ''R'' False)
    \<and> cell_left (prim (score_label e score width height s))
           = Some (cur_x s + (score / 100) * width - 14)
    \<and> cell_right (prim (score_label e score width height s))
           = rect_right (prim (score_fill e score width height s))
    \<and> rect_right (prim (score_fill e score width height s))
           = Some (cur_x s + (score / 100) * width)
    \<and> ((score / 100) * width < 14 \<longrightarrow>
         (\<exists>l. cell_left (prim (score_label e score width height s)) = Some l \<and> l < cur_x s))"
proof -
  have nn: "0 \<le> (score / 100) * width"
    using assms by simp
  have pos: "0 \<le> cur_x s + (score / 100) * width - 14"
    using nn assms(3) by linarith
  obtain y' p o' where "score_label e score width height s =
     \<lparr>pg = p, painter = o',
      fill_c = (if score < 50 then C_RED else if score < 70 then C_YELLOW else C_GREEN),
      text_c = (if score < 50 then C_WHITE else C_DARK),
      draw_c = draw_color s, fnt = (''Sans'', ''B'', 15 / 2),
      prim = Cell (if 0 \<le> cur_x s + (score / 100) * width - 14
                   then cur_x s + (score / 100) * width - 14
                   else page_w + (cur_x s + (score / 100) * width - 14))
               y' 14 height (str_num e score @ ''/100'') ''R'' False\<rparr>"
    using score_bar_last_op by blast
  with pos show ?thesis by (simp add: score_bar_second_op)
qed

theorem score_bar_label_position_witness:
  "cell_left (prim (score_label sample_env 10 100 5
       (set_xy 38 100 (add_page sample_env init_pdf)))) = Some 34
   \<and> cell_right (prim (score_label sample_env 10 100 5
       (set_xy 38 100 (add_page sample_env init_pdf)))) = Some 48
   \<and> rect_right (prim (score_fill sample_env 10 100 5
       (set_xy 38 100 (add_page sample_env init_pdf)))) = Some 48
   \<and> (34 :: rat) < 38"
proof -
  have x: "cur_x (set_xy 38 100 (add_page sample_env init_pdf)) = 38"
    by (simp add: prims)
  show ?thesis
    using score_bar_label_position
      [of 10 100 "set_xy 38 100 (add_page sample_env init_pdf)" sample_env 5]
    by (simp add: x)
qed

subsection \<open>Unknown severities and statuses\<close>


subsection \<open>Measuring and painting the body of an anti-pattern card\<close>

text \<open>
  C1, evaluated at a card whose detail text is 159.3 mm wide in DejaVu Sans at 9 points.
  The dry run at width 158 (156 mm of text) breaks it into two lines, so 11 mm are
  reserved for the body; the paint at width 164 (162 mm of text) sets it in one line and
  consumes 5.5 mm.
\<close>

theorem card_body_reserved_vs_painted:
  "card_body_reserved sample_env sample_pattern
     (set_xy 23 100 (set_font ''Sans'' [] 9 (add_page sample_env init_pdf))) = 11
   \<and> card_body_painted sample_env sample_pattern
     (set_xy 23 100 (set_font ''Sans'' [] 9 (add_page sample_env init_pdf))) = 11 / 2"
proof -
  have "card_body_reserved sample_env sample_pattern
     (set_xy 23 100 (set_font ''Sans'' [] 9 (add_page sample_env init_pdf))) = 11"
    by (simp add: card_body_reserved_def multi_cell_dry_run_def text_lines_def sample_env_def
        sample_wrap_def sample_width_def sample_detail_def sample_pattern_def sample_cw_def
        cell_width_def c_margin_def prims add_page_def restore_gs_def header_def init_pdf_def)
  moreover have "card_body_painted sample_env sample_pattern
     (set_xy 23 100 (set_font ''Sans'' [] 9 (add_page sample_env init_pdf))) = 11 / 2"
    by (simp add: card_body_painted_def multi_cell_def text_lines_def sample_env_def
        sample_wrap_def sample_width_def sample_detail_def sample_pattern_def sample_cw_def
        cell_width_def cell_def will_page_break_def
        prims add_page_def restore_gs_def header_def init_pdf_def geometry)
  ultimately show ?thesis by simp
qed

subsection \<open>Where the cursor stands\<close>

text \<open>Each library method and helper, as a move of the page and the ordinate. A cell that fits
  above the page-break trigger breaks no page.\<close>

lemma moves_seq_nil: "g = g' \<Longrightarrow> moves (seq []) g g'"
  by (simp add: moves_def)

lemma moves_seq_cons: "moves a g g1 \<Longrightarrow> moves (seq as) g1 g2 \<Longrightarrow> moves (seq (a # as)) g g2"
  by (simp add: moves_def)

lemma moves_for_each: "moves (seq (map f xs)) g g' \<Longrightarrow> moves (for_each f xs) g g'"
  by (simp add: for_each_def)

lemma moves_id: "moves id g g"
  by (simp add: moves_def)

lemma moves_set_fill_color: "moves (set_fill_color c) g g"
  and moves_set_text_color: "moves (set_text_color c) g g"
  and moves_set_draw_color: "moves (set_draw_color c) g g"
  and moves_set_line_width: "moves (set_line_width v) g g"
  and moves_set_font: "moves (set_font fa st sz) g g"
  and moves_set_x: "moves (set_x v) g g"
  and moves_rect: "moves (rect vx vy w h st) g g"
  and moves_line: "moves (\<lambda>s. line (fa1 s) (fa2 s) (fa3 s) (fa4 s) s) g g"
  by (simp_all add: moves_def geom3_def prims)

lemma moves_set_xy: "0 \<le> vy \<Longrightarrow> moves (set_xy vx vy) (p, y, d) (p, vy, d)"
  by (simp add: moves_def geom3_def prims)

lemma moves_ln: "moves (ln h) (p, y, d) (p, y + h, d)"
  by (simp add: moves_def geom3_def prims)

lemma moves_add_page:
  "moves (add_page e) (p, y, d) (p + 1, if p = 0 then t_margin else 11 / 2, Body)"
  by (auto simp add: moves_def geom3_def add_page_def render_footer_def footer_def header_def
      restore_gs_def prims Let_def)

lemma moves_cell_top:
  "y + h \<le> page_break_trigger \<Longrightarrow> moves (cell e w h t al fl nx YTOP) (p, y, d) (p, y, d)"
  by (simp add: moves_def geom3_def cell_def will_page_break_def cell_paint_def paint_def Let_def)

lemma moves_cell_next:
  "y + h \<le> page_break_trigger \<Longrightarrow> moves (cell e w h t al fl nx YNEXT) (p, y, d) (p, y + h, d)"
  by (simp add: moves_def geom3_def cell_def will_page_break_def cell_paint_def paint_def Let_def)

lemmas moves_rules =
  moves_seq_cons moves_seq_nil moves_for_each moves_id
  moves_set_fill_color moves_set_text_color moves_set_draw_color moves_set_line_width
  moves_set_font moves_set_x moves_rect moves_line moves_set_xy moves_ln moves_add_page
  moves_cell_top moves_cell_next

lemma moves_h1:
  "y + 13 \<le> page_break_trigger \<Longrightarrow> moves (h1 e t) (p, y, d) (p, y + 15, d)"
  unfolding h1_def
  by (rule moves_rules | simp)+
lemma moves_h2:
  "y + 10 \<le> page_break_trigger \<Longrightarrow> moves (h2 e t) (p, y, d) (p, y + 11, d)"
  unfolding h2_def
  by (rule moves_rules | simp)+
lemma moves_kv_row:
  "y + 13 / 2 \<le> page_break_trigger \<Longrightarrow> moves (kv_row e k v f) (p, y, d) (p, y + 13 / 2, d)"
  unfolding kv_row_def
  by (rule moves_rules | simp)+
lemma moves_cover_row:
  "y + 7 \<le> page_break_trigger \<Longrightarrow> moves (cover_row e k v f) (p, y, d) (p, y + 7, d)"
  unfolding cover_row_def
  by (rule moves_rules | simp)+
lemma moves_cover_badge:
  assumes y: "0 \<le> y" "y + 18 \<le> page_break_trigger"
  shows "moves (cover_badge e sc) (p, y, d) (p, y, d)"
  unfolding moves_def
proof (intro allI impI)
  fix s assume g: "geom3 s = (p, y, d)"
  obtain sev cnt where sc: "sc = (sev, cnt)" by (cases sc)
  from g have cy: "cur_y s = y" by (simp add: geom3_def)
  have m: "moves (seq [
        set_fill_color (severity_bg sev),
        set_draw_color (the (map_of SEVERITY_COLOR sev)),
        set_line_width (1 / 2),
        rect (cur_x s) y 38 20 ''DF'',
        set_font ''Sans'' ''B'' 18,
        set_text_color (the (map_of SEVERITY_COLOR sev)),
        set_xy (cur_x s) (y + 2),
        cell e 38 10 (show_nat cnt) ''C'' False XRIGHT YTOP,
        set_font ''Sans'' [] 8,
        set_text_color C_MID,
        set_xy (cur_x s) (y + 12),
        cell e 38 6 sev ''C'' False XRIGHT YTOP,
        set_xy (cur_x s + 42) y]) (p, y, d) (p, y, d)"
    apply (rule moves_seq_cons, rule moves_set_fill_color)
    apply (rule moves_seq_cons, rule moves_set_draw_color)
    apply (rule moves_seq_cons, rule moves_set_line_width)
    apply (rule moves_seq_cons, rule moves_rect)
    apply (rule moves_seq_cons, rule moves_set_font)
    apply (rule moves_seq_cons, rule moves_set_text_color)
    apply (rule moves_seq_cons, rule moves_set_xy)
    using y apply simp
    apply (rule moves_seq_cons, rule moves_cell_top)
    using y apply simp
    apply (rule moves_seq_cons, rule moves_set_font)
    apply (rule moves_seq_cons, rule moves_set_text_color)
    apply (rule moves_seq_cons, rule moves_set_xy)
    using y apply simp
    apply (rule moves_seq_cons, rule moves_cell_top)
    using y apply simp
    apply (rule moves_seq_cons, rule moves_set_xy)
    using y apply simp
    apply (rule moves_seq_nil)
    apply (rule refl)
    done
  have eq: "cover_badge e sc s = seq [
        set_fill_color (severity_bg sev),
        set_draw_color (the (map_of SEVERITY_COLOR sev)),
        set_line_width (1 / 2),
        rect (cur_x s) y 38 20 ''DF'',
        set_font ''Sans'' ''B'' 18,
        set_text_color (the (map_of SEVERITY_COLOR sev)),
        set_xy (cur_x s) (y + 2),
        cell e 38 10 (show_nat cnt) ''C'' False XRIGHT YTOP,
        set_font ''Sans'' [] 8,
        set_text_color C_MID,
        set_xy (cur_x s) (y + 12),
        cell e 38 6 sev ''C'' False XRIGHT YTOP,
        set_xy (cur_x s + 42) y] s"
    by (simp only: cover_badge_def sc split_conv Let_def cy)
  from m g show "geom3 (cover_badge e sc s) = (p, y, d)"
    unfolding eq moves_def by blast
qed
lemma moves_cover: "moves (cover e d) (p, 18, dd) (p, 141, dd)"
  unfolding cover_def cover_counts_def Let_def
  by (rule moves_rules moves_cover_row moves_cover_badge | simp add: geometry)+
lemma moves_overview: "moves (overview e) (p, 41 / 2, dd) (p, 138, dd)"
  unfolding overview_def
  by (rule moves_rules moves_h2 moves_kv_row | simp add: geometry enumerate_eq_zip)+

subsection \<open>How the sections start\<close>

lemma moves_new_page_h1:
  "moves (seq [add_page e, h1 e t]) (p, y, d)
     (p + 1, (if p = 0 then t_margin else 11 / 2) + 15, Body)"
  apply (rule moves_seq_cons, rule moves_add_page)
  apply (rule moves_seq_cons, rule moves_h1)
   apply (simp add: geometry)
  apply (rule moves_seq_nil, rule refl)
  done

lemma moves_section_start:
  "sec \<noteq> Policy \<Longrightarrow> sec \<noteq> Cover \<Longrightarrow>
   moves (section_start e sec) (p, y, d) (p + 1, (if p = 0 then t_margin else 11 / 2) + 15, Body)"
  by (cases sec) (simp_all only: section_start.simps moves_new_page_h1 simp_thms)

lemma geom3_init: "geom3 init_pdf = (0, 18, Body)"
  by (simp add: geom3_def init_pdf_def t_margin_def)

lemma moves_cover_overview:
  "moves (seq [section_start e Cover, section_body e d Cover,
               section_start e Overview, section_body e d Overview]) (0, 18, Body) (2, 138, Body)"
  unfolding section_start.simps section_body.simps
  apply (rule moves_seq_cons, rule moves_add_page)
  apply (rule moves_seq_cons)
   apply (simp add: t_margin_def, rule moves_cover)
  apply (rule moves_seq_cons, rule moves_new_page_h1)
  apply (rule moves_seq_cons)
   apply (simp, rule moves_overview)
  apply (rule moves_seq_nil)
  apply simp
  done

lemma geom3_build_upto_2: "geom3 (build_upto e d 2) = (2, 138, Body)"
proof -
  have "build_upto e d 2 = seq [section_start e Cover, section_body e d Cover,
               section_start e Overview, section_body e d Overview] init_pdf"
    by (simp add: build_upto_def sections_def for_each_def render_section_def)
  then show ?thesis
    using moves_cover_overview[of e d] geom3_init by (simp add: moves_def del: seq.simps)
qed

lemma pg_last_cell:
  "pg (last (ops (cell e w h t al fl nx ny s))) = page_no (cell e w h t al fl nx ny s)"
  by (simp add: cell_def perform_page_break_def cell_paint_def paint_def Let_def
      add_page_def restore_gs_def)

lemma h1_banner_page: "pg (last (ops (h1 e t s))) = page_no (h1 e t s)"
  using pg_last_cell[of e 0 9 "''  '' @ t" "''L''" True XLMARGIN YNEXT
      "set_font ''Sans'' ''B'' 13 (set_text_color C_WHITE (set_fill_color C_BLUE_DARK (ln 4 s)))"]
  by (simp add: h1_def set_text_color_def ln_def)

lemma section_start_banner_page:
  "sec \<noteq> Cover \<Longrightarrow> pg (last (ops (section_start e sec s))) = page_no (section_start e sec s)"
  by (cases sec) (simp_all add: h1_banner_page)

lemma page_no_section_start:
  "sec \<noteq> Policy \<Longrightarrow> page_no (section_start e sec s) = page_no s + 1"
proof (cases "sec = Cover")
  case True
  then show ?thesis
    using moves_add_page[of e "page_no s" "cur_y s" "drawing s"]
    by (simp add: moves_def geom3_def)
next
  case False
  assume "sec \<noteq> Policy"
  from moves_section_start[OF this False, of e "page_no s" "cur_y s" "drawing s"]
  show ?thesis by (simp add: moves_def geom3_def)
qed

lemma policy_start_same_page:
  "geom3 (section_start e Policy (build_upto e d 2)) = (2, 153, Body)"
proof -
  have "moves (h1 e ''2.  Test Policy'') (2, 138, Body) (2, 138 + 15, Body)"
    by (rule moves_h1) (simp add: geometry)
  then show ?thesis
    using geom3_build_upto_2[of e d] by (simp add: moves_def)
qed

text \<open>
  C3, as the code has it. Every section but Test Policy starts with \<^verbatim>\<open>add_page\<close>: its
  start raises the page number by one, and its banner (the last thing the start paints)
  is painted on that new page; this includes the cover, whose start is the first page.
  The Test Policy section (line 363) has no \<^verbatim>\<open>add_page\<close>: whatever the input, the
  document stands on page 2 after the Overview section, and the Test Policy banner is
  painted on page 2 as well.
\<close>

theorem section_starts:
  "(sec \<noteq> Policy \<longrightarrow> page_no (section_start e sec s) = page_no s + 1)
   \<and> (sec \<noteq> Policy \<and> sec \<noteq> Cover \<longrightarrow> pg (last (ops (section_start e sec s))) = page_no s + 1)
   \<and> page_no (build_upto e d 2) = 2
   \<and> page_no (section_start e Policy (build_upto e d 2)) = 2
   \<and> pg (last (ops (section_start e Policy (build_upto e d 2)))) = 2"
  using policy_start_same_page[of e d] geom3_build_upto_2[of e d]
  by (simp add: page_no_section_start section_start_banner_page h1_banner_page geom3_def)

theorem section_starts_witness:
  "ResultSummary \<noteq> Policy
   \<and> page_no (section_start sample_env ResultSummary (build_upto sample_env sample_llm 2))
       = page_no (build_upto sample_env sample_llm 2) + 1
   \<and> pg (last (ops (section_start sample_env ResultSummary (build_upto sample_env sample_llm 2))))
       = page_no (build_upto sample_env sample_llm 2) + 1"
  using section_starts[of ResultSummary sample_env "build_upto sample_env sample_llm 2" sample_llm]
  by simp

text \<open>
  C3 as stated fails at the transition from Overview to Test Policy: for the sample input
  the Overview section ends on page 2 and the Test Policy banner is painted on page 2.
\<close>

theorem policy_continues_page_counterexample:
  "page_no (build_upto sample_env sample_llm 2) = 2
   \<and> page_no (section_start sample_env Policy (build_upto sample_env sample_llm 2)) = 2
   \<and> pg (last (ops (section_start sample_env Policy (build_upto sample_env sample_llm 2)))) = 2"
  using policy_start_same_page[of sample_env sample_llm] geom3_build_upto_2[of sample_env sample_llm]
  by (simp add: h1_banner_page geom3_def)

subsection \<open>Placing a code block and a card\<close>

lemma growsD: "grows f \<Longrightarrow> prefix (ops s) (ops (f s))"
  by (simp add: grows_def)

lemma grows_seq_nil: "grows (seq [])"
  by (simp add: grows_def)

lemma grows_seq_cons: "grows a \<Longrightarrow> grows (seq as) \<Longrightarrow> grows (seq (a # as))"
  unfolding grows_def by (auto intro: prefix_order.trans)

lemma grows_for_each: "(\<And>x. grows (f x)) \<Longrightarrow> grows (for_each f xs)"
  unfolding for_each_def by (induction xs) (simp_all add: grows_seq_nil grows_seq_cons)

lemma grows_id: "grows id"
  by (simp add: grows_def)

lemma grows_if: "grows f \<Longrightarrow> grows g \<Longrightarrow> grows (if c then f else g)"
  by simp

lemma grows_set_fill_color: "grows (set_fill_color c)"
  and grows_set_text_color: "grows (set_text_color c)"
  and grows_set_draw_color: "grows (set_draw_color c)"
  and grows_set_line_width: "grows (set_line_width v)"
  and grows_set_font: "grows (set_font fa st sz)"
  and grows_set_x: "grows (set_x v)"
  and grows_set_xy: "grows (set_xy vx vy)"
  and grows_set_xy_at: "grows (\<lambda>s. set_xy (fa1 s) (fa2 s) s)"
  and grows_ln: "grows (ln h)"
  and grows_rect: "grows (rect vx vy w h st)"
  by (simp_all add: grows_def prims)

lemma grows_add_page: "grows (add_page e)"
  using ops_add_page by (auto simp add: grows_def prefix_def)

lemma grows_cell: "grows (cell e w h t al fl nx ny)"
  using ops_cell by (auto simp add: grows_def prefix_def)

lemma grows_multi_cell_lines: "grows (multi_cell_lines e w h ls)"
proof (induction ls rule: induct_list012)
  case 1
  then show ?case by (simp add: grows_def)
next
  case (2 l)
  then show ?case using grows_cell[of e w h l] by (simp add: grows_def)
next
  case (3 l l' ls)
  have "prefix (ops s) (ops (multi_cell_lines e w h (l # l' # ls) s))" for s
    using growsD[OF grows_cell, of s e w h l "''J''" False XLEFT YNEXT]
      growsD[OF 3(2), of "cell e w h l ''J'' False XLEFT YNEXT s"]
    by (auto intro: prefix_order.trans)
  then show ?case by (simp add: grows_def)
qed

lemma grows_multi_cell: "grows (multi_cell e w h t)"
  using grows_multi_cell_lines by (simp add: grows_def multi_cell_def)

lemmas grows_rules =
  grows_seq_cons grows_seq_nil grows_for_each grows_id grows_if
  grows_set_fill_color grows_set_text_color grows_set_draw_color grows_set_line_width
  grows_set_font grows_set_x grows_set_xy grows_set_xy_at grows_ln grows_rect grows_add_page
  grows_cell grows_multi_cell

lemma hd_new_ops_after_paint:
  assumes "grows f" and that: "ops s0 = ops s"
  shows "hd (new_ops s (f (paint pr s0))) =
     \<lparr>pg = page_no s0, painter = drawing s0, fill_c = fill_color s0, text_c = text_color s0,
      draw_c = draw_color s0, fnt = font s0, prim = pr\<rparr>"
proof -
  obtain zs where "ops (f (paint pr s0)) = ops (paint pr s0) @ zs"
    using growsD[OF assms(1), of "paint pr s0"] by (auto simp add: prefix_def)
  then show ?thesis
    using that by (simp add: new_ops_def paint_def)
qed

lemma code_block_first_op:
  "prim (hd (new_ops s (code_block_paint e code lang s))) =
     Rect (cur_x s) (cur_y s) epw (code_block_height code) ''F''"
proof -
  let ?rest = "seq [
        (if lang \<noteq> [] then seq [
           set_font ''Mono'' [] 7,
           set_text_color (100, 116, 139),
           (\<lambda>s'. set_xy (cur_x s + epw - get_string_width e lang s' - 4) (cur_y s + 3 / 2) s'),
           cell e 0 3 lang ''L'' False XRIGHT YTOP]
         else id),
        set_font ''Mono'' [] 8,
        set_text_color C_CODE_FG,
        set_xy (cur_x s + 4) (cur_y s + 4),
        for_each (\<lambda>l. seq [
           set_x (cur_x s + 4),
           cell e (epw - 4 * 2) (9 / 2) l ''L'' False XLMARGIN YNEXT]) (split_on newline code),
        set_text_color C_DARK,
        set_xy (cur_x s) (cur_y s + code_block_height code + 2)]"
  have g: "grows ?rest"
    by (intro grows_rules)
  have "code_block_paint e code lang s =
      ?rest (paint (Rect (cur_x s) (cur_y s) epw (code_block_height code) ''F'')
        (set_fill_color C_CODE_BG s))"
    by (simp add: code_block_paint_def Let_def rect_def)
  then show ?thesis
    using hd_new_ops_after_paint[OF g, of "set_fill_color C_CODE_BG s" s]
    by (simp add: set_fill_color_def)
qed

lemma card_first_op:
  "prim (hd (new_ops s (card_paint e bg fg mark p (s, x0, y0, card_h)))) =
     Rect x0 y0 174 card_h ''DF''"
proof -
  let ?rest = "seq [
     set_xy (x0 + 3) (y0 + 2),
     set_font ''Sans'' ''B'' (19 / 2),
     set_text_color fg,
     cell e 0 (11 / 2) (mark @ ''  '' @ p_title p) ''L'' False XLMARGIN YNEXT,
     (\<lambda>s. set_xy (x0 + 5) (cur_y s) s),
     set_font ''Sans'' [] 9,
     set_text_color C_MID,
     multi_cell e 164 (11 / 2) (p_detail p),
     set_xy x0 (y0 + card_h + 3),
     set_text_color C_DARK]"
  have g: "grows ?rest"
    by (intro grows_rules)
  have "card_paint e bg fg mark p (s, x0, y0, card_h) =
      ?rest (paint (Rect x0 y0 174 card_h ''DF'')
        (set_line_width (1 / 2) (set_draw_color fg (set_fill_color bg s))))"
    by (simp add: card_paint_def rect_def)
  then show ?thesis
    using hd_new_ops_after_paint[OF g,
        of "set_line_width (1 / 2) (set_draw_color fg (set_fill_color bg s))" s]
    by (simp add: set_fill_color_def set_draw_color_def set_line_width_def)
qed

lemma page_no_add_page: "page_no (add_page e s) = page_no s + 1"
  and cur_y_add_page: "cur_y (add_page e s) = (if page_no s = 0 then t_margin else 11 / 2)"
  using moves_add_page[of e "page_no s" "cur_y s" "drawing s"]
  by (simp_all add: moves_def geom3_def)

lemma code_block_place_cases:
  "code_block_place e code s =
     (if page_h - b_margin - cur_y s < code_block_height code then add_page e s else s)"
  by (simp add: code_block_place_def Let_def)

lemma card_place_cases:
  "card_place e p s =
     (let s1 = set_font ''Sans'' [] 9 s; card_h = card_height e p s1
      in if page_h - b_margin < cur_y s + card_h
         then (add_page e s1, cur_x (add_page e s1), cur_y (add_page e s1), card_h)
         else (s1, cur_x s, cur_y s, card_h))"
  by (simp add: card_place_def Let_def set_font_def)

lemma length_split_on: "length (split_on c xs) = Suc (length (filter (\<lambda>a. a = c) xs))"
  by (induction xs) (auto split: list.splits)

lemma length_filter_concat_replicate:
  "length (filter P (concat (replicate n ys))) = n * length (filter P ys)"
  by (induction n) simp_all

lemma sample_code_height: "code_block_height sample_code = 278"
  by (simp add: code_block_height_def sample_code_def length_split_on
      length_filter_concat_replicate newline_def)

lemma sample_short_code_height: "code_block_height sample_short_code = 43 / 2"
  by (simp add: code_block_height_def sample_short_code_def newline_def)

lemma sample_card_height:
  "font s = (''Sans'', [], 9) \<Longrightarrow> card_height sample_env sample_pattern s = 22"
  by (simp add: card_height_def multi_cell_dry_run_def text_lines_def sample_env_def
      sample_wrap_def sample_width_def sample_detail_def sample_pattern_def sample_cw_def
      cell_width_def c_margin_def)

lemma sample_low_state:
  "page_no (set_xy 18 260 (add_page sample_env (add_page sample_env init_pdf))) = 2"
  "cur_y (set_xy 18 260 (add_page sample_env (add_page sample_env init_pdf))) = 260"
  by (simp_all add: set_xy_def set_x_def set_y_def page_no_add_page init_pdf_def)

text \<open>
  C2, as the code has it, for a code block and an anti-pattern card placed from a state on
  page 1 or later with the cursor on the page. The first thing painted is the background
  rectangle, from the cursor the page-break decision leaves and of the computed height.
  When the computed height exceeds the height left above the bottom margin, a page is
  added first and the element starts at y = 5.5, below the running header; otherwise the
  element starts where the cursor was. When the computed height is at most the height of
  a fresh page between y = 5.5 and the bottom margin, the interval from the start to the
  start plus the computed height lies between the top of the page and the bottom margin.
\<close>

theorem atomic_elements_fit:
  assumes "1 \<le> page_no s" and "0 \<le> cur_y s"
  shows "(let s' = code_block_place e code s; height = code_block_height code in
           prim (hd (new_ops s' (code_block_paint e code lang s')))
             = Rect (cur_x s') (cur_y s') epw height ''F''
           \<and> (page_h - b_margin - cur_y s < height \<longrightarrow>
                page_no s' = page_no s + 1 \<and> cur_y s' = 11 / 2)
           \<and> (height \<le> page_h - b_margin - cur_y s \<longrightarrow> s' = s)
           \<and> (height \<le> page_h - b_margin - 11 / 2 \<longrightarrow>
                0 \<le> cur_y s' \<and> cur_y s' + height \<le> page_h - b_margin))
       \<and> (case card_place e p s of (s', x0, y0, card_h) \<Rightarrow>
           prim (hd (new_ops s' (card_paint e bg fg mark p (s', x0, y0, card_h))))
             = Rect x0 y0 174 card_h ''DF''
           \<and> y0 = cur_y s' \<and> card_h = card_height e p (set_font ''Sans'' [] 9 s)
           \<and> (page_h - b_margin < cur_y s + card_h \<longrightarrow>
                page_no s' = page_no s + 1 \<and> y0 = 11 / 2)
           \<and> (cur_y s + card_h \<le> page_h - b_margin \<longrightarrow>
                page_no s' = page_no s \<and> y0 = cur_y s)
           \<and> (card_h \<le> page_h - b_margin - 11 / 2 \<longrightarrow>
                0 \<le> y0 \<and> y0 + card_h \<le> page_h - b_margin))"
proof -
  have a: "cur_y (add_page e s) = 11 / 2" "page_no (add_page e s) = page_no s + 1"
    using assms by (simp_all add: cur_y_add_page page_no_add_page)
  have b: "cur_y (add_page e (set_font ''Sans'' [] 9 s)) = 11 / 2"
    "page_no (add_page e (set_font ''Sans'' [] 9 s)) = page_no s + 1"
    using assms by (simp_all add: cur_y_add_page page_no_add_page set_font_def)
  have c: "cur_y (set_font ''Sans'' [] 9 s) = cur_y s" "page_no (set_font ''Sans'' [] 9 s) = page_no s"
    by (simp_all add: set_font_def)
  show ?thesis
    using assms
    by (auto simp add: code_block_place_cases card_place_cases Let_def code_block_first_op
        card_first_op a b c)
qed

theorem atomic_elements_fit_witness:
  "1 \<le> page_no (set_xy 18 260 (add_page sample_env (add_page sample_env init_pdf)))
   \<and> 0 \<le> cur_y (set_xy 18 260 (add_page sample_env (add_page sample_env init_pdf)))
   \<and> page_no (code_block_place sample_env sample_short_code
         (set_xy 18 260 (add_page sample_env (add_page sample_env init_pdf)))) = 3
   \<and> cur_y (code_block_place sample_env sample_short_code
         (set_xy 18 260 (add_page sample_env (add_page sample_env init_pdf))))
       + code_block_height sample_short_code \<le> page_h - b_margin
   \<and> (case card_place sample_env sample_pattern
         (set_xy 18 260 (add_page sample_env (add_page sample_env init_pdf)))
       of (s', x0, y0, card_h) \<Rightarrow> card_h = 22 \<and> page_no s' = 3 \<and> y0 + card_h \<le> page_h - b_margin)"
proof -
  let ?s = "set_xy 18 260 (add_page sample_env (add_page sample_env init_pdf))"
  have h: "1 \<le> page_no ?s" "0 \<le> cur_y ?s"
    by (simp_all add: sample_low_state)
  have ch: "card_height sample_env sample_pattern (set_font ''Sans'' [] 9 ?s) = 22"
    by (rule sample_card_height) (simp add: set_font_def)
  show ?thesis
    using atomic_elements_fit[OF h, where e = sample_env and code = sample_short_code
        and lang = "''python''" and p = sample_pattern and bg = C_POS_BG and fg = C_GREEN
        and mark = check_mark]
    by (auto simp add: sample_low_state sample_short_code_height ch Let_def geometry
        split: prod.splits)
qed

text \<open>
  C2 as stated fails for an element taller than a fresh page: a code block of sixty lines
  has the computed height 278; placed near the foot of page 2 it goes to page 3 and is
  painted from y = 5.5, so its background rectangle reaches below the bottom margin.
\<close>

theorem tall_code_block_counterexample:
  "code_block_height sample_code = 278
   \<and> page_no (code_block_place sample_env sample_code
        (set_xy 18 260 (add_page sample_env (add_page sample_env init_pdf)))) = 3
   \<and> cur_y (code_block_place sample_env sample_code
        (set_xy 18 260 (add_page sample_env (add_page sample_env init_pdf)))) = 11 / 2
   \<and> page_h - b_margin < cur_y (code_block_place sample_env sample_code
        (set_xy 18 260 (add_page sample_env (add_page sample_env init_pdf))))
       + code_block_height sample_code
   \<and> prim (hd (new_ops (code_block_place sample_env sample_code
        (set_xy 18 260 (add_page sample_env (add_page sample_env init_pdf))))
        (code_block sample_env sample_code ''python''
        (set_xy 18 260 (add_page sample_env (add_page sample_env init_pdf))))))
       = Rect 18 (11 / 2) epw 278 ''F''"
proof -
  let ?s = "set_xy 18 260 (add_page sample_env (add_page sample_env init_pdf))"
  have p: "code_block_place sample_env sample_code ?s = add_page sample_env ?s"
    by (simp add: code_block_place_cases sample_code_height sample_low_state geometry)
  have x: "cur_x (add_page sample_env ?s) = 18"
    by (simp add: add_page_def restore_gs_def header_def render_footer_def footer_def prims
        page_no_add_page Let_def init_pdf_def geometry)
  show ?thesis
    unfolding code_block_def p
    by (simp add: code_block_first_op sample_code_height cur_y_add_page page_no_add_page
        sample_low_state x geometry)
qed

subsection \<open>Running headers and footers on every page\<close>

lemma header_cell_no_break: "\<not> will_page_break 6 (set_xy 0 (3 / 2) s)"
  by (simp add: will_page_break_def prims geometry)

lemma footer_cell_no_break: "drawing s = Footer \<Longrightarrow> \<not> will_page_break h s"
  by (simp add: will_page_break_def)

lemma cell_no_break: "\<not> will_page_break h s \<Longrightarrow> cell e w h t al fl nx ny s = cell_paint w h t al fl nx ny s"
  by (simp add: cell_def)



























































subsection \<open>What the body paints, font by font\<close>

lemma body_cells_append: "body_cells F (xs @ ys) = body_cells F xs @ body_cells F ys"
  by (simp add: body_cells_def List.map_filter_def)

lemma body_cells_Nil: "body_cells F [] = []"
  by (simp add: body_cells_def List.map_filter_def)

lemma body_cells_Cons:
  "body_cells F (a # os) =
     (if painter a = Body \<and> fnt a = F
      then (case cell_text (prim a) of None \<Rightarrow> [] | Some t \<Rightarrow> [(t, text_c a, fill_c a)])
      else [])
     @ body_cells F os"
  by (cases "cell_text (prim a)"; cases "text_c a"; cases "fill_c a")
    (simp_all add: body_cells_def List.map_filter_def)

lemma tmoves_seq_nil: "ts = ts' \<Longrightarrow> tmoves F (seq []) (v, ts) (v, ts')"
  by (simp add: tmoves_def)

lemma tmoves_seq_cons:
  "tmoves F a g g1 \<Longrightarrow> tmoves F (seq as) g1 g2 \<Longrightarrow> tmoves F (seq (a # as)) g g2"
  by (simp add: tmoves_def)

lemma tmoves_for_each: "tmoves F (seq (map f xs)) g g' \<Longrightarrow> tmoves F (for_each f xs) g g'"
  by (simp add: for_each_def)

lemma tmoves_id: "tmoves F id g g"
  by (simp add: tmoves_def)

lemma tmoves_set_draw_color: "tmoves F (set_draw_color c) g g"
  and tmoves_set_line_width: "tmoves F (set_line_width v) g g"
  and tmoves_set_x: "tmoves F (set_x vx) g g"
  and tmoves_set_xy: "tmoves F (set_xy vx vy) g g"
  and tmoves_set_xy_at: "tmoves F (\<lambda>s. set_xy (fa1 s) (fa2 s) s) g g"
  and tmoves_ln: "tmoves F (ln h) g g"
  and tmoves_ln_last: "tmoves F ln_last g g"
  by (simp_all add: tmoves_def tview_def prims)

lemma tmoves_set_font:
  "tmoves F (set_font fa st sz) ((fn, tc, fc), ts) (((fa, st, sz), tc, fc), ts)"
  and tmoves_set_text_color:
  "tmoves F (set_text_color c) ((fn, tc, fc), ts) ((fn, c, fc), ts)"
  and tmoves_set_fill_color:
  "tmoves F (set_fill_color c) ((fn, tc, fc), ts) ((fn, tc, c), ts)"
  by (simp_all add: tmoves_def tview_def prims)

lemma tmoves_rect: "tmoves F (rect vx vy w h st) g g"
  and tmoves_line_at: "tmoves F (\<lambda>s. line (fa1 s) (fa2 s) (fa3 s) (fa4 s) s) g g"
  by (auto simp add: tmoves_def tview_def prims body_cells_append body_cells_Cons body_cells_Nil)

lemma tview_add_page: "drawing s = Body \<Longrightarrow> tview F (add_page e s) = tview F s"
  by (simp add: tview_def add_page_def render_footer_def footer_def header_def restore_gs_def
      prims Let_def body_cells_append body_cells_Cons body_cells_Nil)

lemma drawing_add_page: "drawing (add_page e s) = Body"
  by (simp add: add_page_def)

lemma tmoves_add_page: "tmoves F (add_page e) g g"
  by (simp add: tmoves_def tview_add_page drawing_add_page)

lemma tmoves_cell_paint:
  "tmoves F (cell_paint w h t al fl nx ny) ((fn, tc, fc), ts)
     ((fn, tc, fc), if F = fn then ts @ [(t, tc, fc)] else ts)"
  by (auto simp add: tmoves_def tview_def cell_paint_def paint_def Let_def body_cells_append
      body_cells_Cons body_cells_Nil)

lemma tmoves_cell:
  "tmoves F (cell e w h t al fl nx ny) ((fn, tc, fc), ts)
     ((fn, tc, fc), if F = fn then ts @ [(t, tc, fc)] else ts)"
  unfolding tmoves_def
proof (intro allI impI)
  fix s assume a: "drawing s = Body \<and> tview F s = ((fn, tc, fc), ts)"
  let ?s' = "if will_page_break h s then perform_page_break e s else s"
  have "drawing ?s' = Body \<and> tview F ?s' = ((fn, tc, fc), ts)"
    using a tview_add_page[of s F e]
    by (simp add: perform_page_break_def drawing_add_page tview_def)
  then show "drawing (cell e w h t al fl nx ny s) = Body
      \<and> tview F (cell e w h t al fl nx ny s)
        = ((fn, tc, fc), if F = fn then ts @ [(t, tc, fc)] else ts)"
    using tmoves_cell_paint[of F w h t al fl nx ny fn tc fc ts]
    unfolding cell_def tmoves_def by blast
qed

lemma tmoves_cell_at:
  "tmoves F (\<lambda>s. cell e (fw s) h t al fl nx ny s) ((fn, tc, fc), ts)
     ((fn, tc, fc), if F = fn then ts @ [(t, tc, fc)] else ts)"
  unfolding tmoves_def
proof (intro allI impI)
  fix s assume a: "drawing s = Body \<and> tview F s = ((fn, tc, fc), ts)"
  show "drawing (cell e (fw s) h t al fl nx ny s) = Body
      \<and> tview F (cell e (fw s) h t al fl nx ny s)
        = ((fn, tc, fc), if F = fn then ts @ [(t, tc, fc)] else ts)"
    using a tmoves_cell[of F e "fw s" h t al fl nx ny fn tc fc ts] unfolding tmoves_def by blast
qed

lemma tmoves_multi_cell_lines:
  "F \<noteq> fn \<Longrightarrow> tmoves F (multi_cell_lines e w h ls) ((fn, tc, fc), ts) ((fn, tc, fc), ts)"
proof (induction ls rule: induct_list012)
  case 1
  then show ?case by (simp add: tmoves_def)
next
  case (2 l)
  then show ?case using tmoves_cell[of F e w h l "''J''" False XRIGHT YNEXT fn tc fc ts]
    by (simp add: tmoves_def)
next
  case (3 l l' ls)
  have c: "tmoves F (cell e w h l ''J'' False XLEFT YNEXT) ((fn, tc, fc), ts) ((fn, tc, fc), ts)"
    using 3(3) tmoves_cell[of F e w h l "''J''" False XLEFT YNEXT fn tc fc ts] by simp
  show ?case
    using c 3(2)[OF 3(3)] by (simp add: tmoves_def)
qed

lemma tmoves_multi_cell:
  "F \<noteq> fn \<Longrightarrow> tmoves F (multi_cell e w h t) ((fn, tc, fc), ts) ((fn, tc, fc), ts)"
  using tmoves_multi_cell_lines[of F fn] by (simp add: tmoves_def multi_cell_def)

lemmas tmoves_rules =
  tmoves_seq_cons tmoves_seq_nil tmoves_for_each tmoves_id
  tmoves_set_fill_color tmoves_set_text_color tmoves_set_draw_color tmoves_set_line_width
  tmoves_set_x tmoves_set_xy tmoves_set_xy_at tmoves_ln tmoves_ln_last tmoves_set_font
  tmoves_rect tmoves_line_at tmoves_add_page tmoves_cell tmoves_cell_at tmoves_multi_cell

lemma tmoves_h2:
  "F \<noteq> (''Sans'', ''B'', 11) \<Longrightarrow>
   tmoves F (h2 e t) ((fn, tc, fc), ts) (((''Sans'', ''B'', 11), C_DARK, fc), ts)"
  unfolding h2_def
  by (rule tmoves_rules | simp)+


lemma tmoves_body:
  "F \<noteq> (''Sans'', [], 19 / 2) \<Longrightarrow>
   tmoves F (body e t i) ((fn, tc, fc), ts) (((''Sans'', [], 19 / 2), C_DARK, fc), ts)"
  unfolding body_def
  by (rule tmoves_rules | simp)+


text \<open>Composition of what methods add.\<close>

lemma addsI: "(\<And>fn tc fc ts. tmoves F f ((fn, tc, fc), ts) (v fn tc fc, ts @ new)) \<Longrightarrow> adds F f new"
  unfolding adds_def by blast

lemma adds_seq_nil: "adds F (seq []) []"
  by (simp add: adds_def tmoves_def)

lemma adds_id: "adds F id []"
  by (simp add: adds_def tmoves_def)

lemma adds_seq_cons:
  assumes "adds F a n1" and "adds F (seq as) n2"
  shows "adds F (seq (a # as)) (n1 @ n2)"
  unfolding adds_def
proof (intro allI)
  fix fn tc fc ts
  obtain v where 1: "tmoves F a ((fn, tc, fc), ts) (v, ts @ n1)"
    using assms(1) unfolding adds_def by blast
  obtain fn' tc' fc' where v: "v = (fn', tc', fc')"
    by (cases v) auto
  obtain v' where 2: "tmoves F (seq as) ((fn', tc', fc'), ts @ n1) (v', (ts @ n1) @ n2)"
    using assms(2) unfolding adds_def by blast
  have "tmoves F (seq (a # as)) ((fn, tc, fc), ts) (v', ts @ n1 @ n2)"
    using tmoves_seq_cons[OF 1[unfolded v] 2] by simp
  then show "\<exists>v. tmoves F (seq (a # as)) ((fn, tc, fc), ts) (v, ts @ n1 @ n2)"
    by blast
qed

lemma adds_for_each:
  "(\<And>x. adds F (f x) (g x)) \<Longrightarrow> adds F (for_each f xs) (concat (map g xs))"
  unfolding for_each_def
  by (induction xs) (simp_all add: adds_seq_nil adds_seq_cons)

lemma adds_new_ops:
  assumes "adds F f new" and "grows f" and "drawing s = Body"
  shows "body_cells F (new_ops s (f s)) = new"
proof -
  obtain v where "tmoves F f ((font s, text_color s, fill_color s), body_cells F (ops s))
      (v, body_cells F (ops s) @ new)"
    using assms(1) unfolding adds_def by blast
  then have 1: "body_cells F (ops (f s)) = body_cells F (ops s) @ new"
    using assms(3) by (simp add: tmoves_def tview_def)
  obtain zs where zs: "ops (f s) = ops s @ zs"
    using growsD[OF assms(2), of s] by (auto simp add: prefix_def)
  then have "new_ops s (f s) = zs"
    by (simp add: new_ops_def)
  then show ?thesis
    using 1 zs by (simp add: body_cells_append)
qed

lemma adds_h2: "F \<noteq> (''Sans'', ''B'', 11) \<Longrightarrow> adds F (h2 e t) []"
  using tmoves_h2[of F e t] by (intro addsI) simp

lemma adds_body: "F \<noteq> (''Sans'', [], 19 / 2) \<Longrightarrow> adds F (body e t i) []"
  using tmoves_body[of F e t i] by (intro addsI) simp

lemma adds_ln: "adds F (ln h) []"
  using tmoves_ln[of F h] by (intro addsI) simp

subsection \<open>The anti-pattern cards\<close>

lemma tmoves_card_paint:
  "tmoves (''Sans'', ''B'', 19 / 2) (\<lambda>s. card_paint e bg fg mark p (s, x0, y0, card_h))
     ((fn, tc, fc), ts)
     (((''Sans'', [], 9), C_DARK, bg), ts @ [(mark @ ''  '' @ p_title p, fg, bg)])"
  unfolding card_paint_def split_conv
  by (rule tmoves_rules | simp)+

lemma adds_card:
  "adds (''Sans'', ''B'', 19 / 2) (card e bg fg mark p) [(mark @ ''  '' @ p_title p, fg, bg)]"
proof (rule addsI)
  fix fn :: font and tc fc :: color and ts :: "(string \<times> color \<times> color) list"
  let ?F = "(''Sans'', ''B'', 19 / 2) :: font"
  show "tmoves ?F (card e bg fg mark p) ((fn, tc, fc), ts)
     (((''Sans'', [], 9), C_DARK, bg), ts @ [(mark @ ''  '' @ p_title p, fg, bg)])"
    unfolding tmoves_def
  proof (intro allI impI)
    fix s assume a: "drawing s = Body \<and> tview ?F s = ((fn, tc, fc), ts)"
    obtain s' x0 y0 h where pl: "card_place e p s = (s', x0, y0, h)"
      by (cases "card_place e p s") auto
    have s': "drawing s' = Body \<and> tview ?F s' = (((''Sans'', [], 9), tc, fc), ts)"
      using a pl tview_add_page[of "set_font ''Sans'' [] 9 s" ?F e]
      by (auto simp add: card_place_def Let_def drawing_add_page tview_def set_font_def
          split: if_splits)
    show "drawing (card e bg fg mark p s) = Body \<and> tview ?F (card e bg fg mark p s)
        = (((''Sans'', [], 9), C_DARK, bg), ts @ [(mark @ ''  '' @ p_title p, fg, bg)])"
      using s' tmoves_card_paint[of e bg fg mark p x0 y0 h "(''Sans'', [], 9)" tc fc ts]
      unfolding card_def pl tmoves_def by blast
  qed
qed

lemma grows_line_at: "grows (\<lambda>s. line (fa1 s) (fa2 s) (fa3 s) (fa4 s) s)"
  by (simp add: grows_def prims)

lemma grows_h2: "grows (h2 e t)"
  unfolding h2_def by (intro grows_rules grows_line_at)

lemma grows_body: "grows (body e t i)"
  unfolding body_def by (intro grows_rules)

lemma grows_card: "grows (card e bg fg mark p)"
proof -
  have 1: "grows (\<lambda>s. card_paint e bg fg mark p (s, x0, y0, h))" for x0 y0 h
    unfolding card_paint_def split_conv by (intro grows_rules)
  have "prefix (ops s) (ops (card e bg fg mark p s))" for s
  proof -
    obtain s' x0 y0 h where pl: "card_place e p s = (s', x0, y0, h)"
      by (cases "card_place e p s") auto
    have "prefix (ops s) (ops s')"
      using pl growsD[OF grows_add_page, of "set_font ''Sans'' [] 9 s" e]
      by (auto simp add: card_place_def Let_def set_font_def split: if_splits)
    then show ?thesis
      using growsD[OF 1, of s' x0 y0 h] unfolding card_def pl
      by (auto intro: prefix_order.trans)
  qed
  then show ?thesis by (simp add: grows_def)
qed

lemma grows_anti_patterns_section: "grows (anti_patterns_section e d)"
  unfolding anti_patterns_section_def
  by (intro grows_rules grows_h2 grows_body grows_card)

lemma adds_cards:
  "adds (''Sans'', ''B'', 19 / 2) (for_each (card e bg fg mark) ps)
     (map (\<lambda>p. (mark @ ''  '' @ p_title p, fg, bg)) ps)"
  using adds_for_each[of "(''Sans'', ''B'', 19 / 2)" "card e bg fg mark"
      "\<lambda>p. [(mark @ ''  '' @ p_title p, fg, bg)]" ps, OF adds_card]
  by (simp add: comp_def)

lemma adds_anti_patterns_section:
  "adds (''Sans'', ''B'', 19 / 2) (anti_patterns_section e d)
     (map (\<lambda>p. (check_mark @ ''  '' @ p_title p, C_GREEN, C_POS_BG)) (positives d)
      @ map (\<lambda>p. (cross_mark @ ''  '' @ p_title p, C_RED, C_NEG_BG)) (negatives d))"
proof -
  let ?F = "(''Sans'', ''B'', 19 / 2) :: font"
  let ?P = "map (\<lambda>p. (check_mark @ ''  '' @ p_title p, C_GREEN, C_POS_BG)) (positives d)"
  let ?N = "map (\<lambda>p. (cross_mark @ ''  '' @ p_title p, C_RED, C_NEG_BG)) (negatives d)"
  have pos: "adds ?F (if positives d \<noteq> [] then seq [
        h2 e (''Positive '' @ em_dash @ '' Security Controls That Held''),
        for_each (card e C_POS_BG C_GREEN check_mark) (positives d)]
      else id) ?P"
  proof (cases "positives d = []")
    case True
    then show ?thesis by (simp add: adds_id)
  next
    case False
    have "adds ?F (seq [
        h2 e (''Positive '' @ em_dash @ '' Security Controls That Held''),
        for_each (card e C_POS_BG C_GREEN check_mark) (positives d)]) ([] @ ?P @ [])"
      by (intro adds_seq_cons adds_seq_nil adds_h2 adds_cards) simp
    then show ?thesis using False by simp
  qed
  have neg: "adds ?F (if negatives d \<noteq> [] then seq [
        ln 4,
        h2 e (''Negative '' @ em_dash @ '' Weaknesses Observed''),
        for_each (card e C_NEG_BG C_RED cross_mark) (negatives d)]
      else id) ?N"
  proof (cases "negatives d = []")
    case True
    then show ?thesis by (simp add: adds_id)
  next
    case False
    have "adds ?F (seq [
        ln 4,
        h2 e (''Negative '' @ em_dash @ '' Weaknesses Observed''),
        for_each (card e C_NEG_BG C_RED cross_mark) (negatives d)]) ([] @ [] @ ?N @ [])"
      by (intro adds_seq_cons adds_seq_nil adds_h2 adds_cards adds_ln) simp
    then show ?thesis using False by simp
  qed
  have "adds ?F (anti_patterns_section e d) ([] @ [] @ ?P @ ?N @ [])"
    unfolding anti_patterns_section_def
    by (intro adds_seq_cons adds_seq_nil adds_body adds_ln pos neg) simp
  then show ?thesis by simp
qed

text \<open>
  C9. Whatever the list of anti-patterns and however its two types interleave, the cards
  the section paints are, in this order: one card for each pattern of type positive, in
  the order of the input, with the check mark and in the positive colours; then one card
  for each pattern of type negative, in the order of the input, with the cross and in the
  negative colours. (A card is read off its title cell, the only cell the section paints
  in bold 9.5 pt. A pattern of any other type has no card.)
\<close>

theorem anti_patterns_positives_first:
  assumes "drawing s = Body"
  shows "body_cells (''Sans'', ''B'', 19 / 2) (new_ops s (anti_patterns_section e d s)) =
     map (\<lambda>p. (check_mark @ ''  '' @ p_title p, C_GREEN, C_POS_BG))
       (filter (\<lambda>p. p_type p = ''positive'') (anti_patterns d))
     @ map (\<lambda>p. (cross_mark @ ''  '' @ p_title p, C_RED, C_NEG_BG))
       (filter (\<lambda>p. p_type p = ''negative'') (anti_patterns d))"
  using adds_new_ops[OF adds_anti_patterns_section grows_anti_patterns_section assms, of e d]
  by (simp add: positives_def negatives_def)

theorem anti_patterns_positives_first_witness:
  "drawing (add_page sample_env init_pdf) = Body
   \<and> body_cells (''Sans'', ''B'', 19 / 2)
       (new_ops (add_page sample_env init_pdf)
          (anti_patterns_section sample_env mixed_llm (add_page sample_env init_pdf))) =
     [(check_mark @ ''  Rate limiting'', C_GREEN, C_POS_BG),
      (check_mark @ ''  TLS enforced'', C_GREEN, C_POS_BG),
      (cross_mark @ ''  No WAF'', C_RED, C_NEG_BG),
      (cross_mark @ ''  Default credentials'', C_RED, C_NEG_BG)]"
  using anti_patterns_positives_first[of "add_page sample_env init_pdf" sample_env mixed_llm]
  by (simp add: drawing_add_page mixed_llm_def mixed_patterns_def)

subsection \<open>The counts of the cover and the badges of the findings\<close>





















end
